theory Spec2Isabelle
  imports Complex_Main "HOL-Library.AList" "HOL-Library.Multiset"
begin

section \<open>Numbers and geometry\<close>

text \<open>
  JavaScript numbers are IEEE 754 doubles; the model's numbers are the reals they denote.
  Where the source computes the stats of a tower, the refund of a sale or the spawn
  schedule of a wave, every arithmetic operation is the exact operation followed by
  \<open>fl\<close>, the rounding to the nearest double, so that the values are those the program
  computes, digit by digit. The geometry and the bookkeeping of enemies and projectiles
  (distances, movement, hp, speed) use the exact operations on \<open>real\<close>. Not-a-number,
  the infinities and the bounds of the exponent are outside the model. An optional
  property of an object (a field that may be \<open>undefined\<close>) is an \<open>option\<close>.
\<close>

text \<open>Rounding to the nearest integer, a tie going to the even one.\<close>

definition roundEven :: "real \<Rightarrow> int" where
  "roundEven y =
     (let f = \<lfloor>y\<rfloor>
      in if y - of_int f < 1 / 2 then f
         else if 1 / 2 < y - of_int f then f + 1
         else if even f then f else f + 1)"

text \<open>
  Rounding to the nearest double, ties to even: a double has a significand of 53 bits, so
  in the binade of \<open>x\<close>, from \<open>2 powi e\<close> up to \<open>2 powi (e + 1)\<close>, the doubles are the
  multiples of \<open>2 powi (e - 52)\<close>. In the rounded parts of the model a number literal of
  the source, such as \<open>0.7\<close>, denotes \<open>fl\<close> of its decimal value.
\<close>

definition fl :: "real \<Rightarrow> real" where
  "fl x =
     (if x = 0 then 0
      else (let u = 2 powi (\<lfloor>log 2 \<bar>x\<bar>\<rfloor> - 52)
            in of_int (roundEven (x / u)) * u))"

text \<open>\<open>Math.hypot(dx, dy)\<close>.\<close>

definition hypot :: "real \<Rightarrow> real \<Rightarrow> real" where
  "hypot dx dy = sqrt (dx\<^sup>2 + dy\<^sup>2)"

text \<open>The truth value of an optional number in a condition: defined and not zero.\<close>

fun truthy :: "real option \<Rightarrow> bool" where
  "truthy None = False"
| "truthy (Some v) = (v \<noteq> 0)"

text \<open>The constants of \<open>GameConstants\<close> (config.js) that the simulation core reads.\<close>

definition ENEMY_SPEED_MULTIPLIER :: real where
  "ENEMY_SPEED_MULTIPLIER = 60"

definition PROJECTILE_SPEED :: real where
  "PROJECTILE_SPEED = 400"


record point =
  px :: real
  py :: real

section \<open>Enemy (entities.js)\<close>

record effect =
  val :: real
  duration :: real

text \<open>
  \<open>statusEffects\<close> is a JavaScript \<open>Map\<close> from the effect type to its record: an
  association list in insertion order, read with \<open>map_of\<close>, written with
  \<open>AList.update\<close> (in place for a key that is present, at the end otherwise) and
  \<open>AList.delete\<close>.
\<close>

record enemy =
  e_x :: real
  e_y :: real
  e_id :: string
  maxHp :: real
  hp :: real
  baseSpeed :: real
  speed :: real
  reward :: real
  pathIndex :: nat
  distanceAlongSegment :: real
  reachedEnd :: bool
  statusEffects :: "(string \<times> effect) list"

record enemyData =
  ed_id :: string
  ed_hp :: real
  ed_speed :: real
  ed_reward :: real

text \<open>The constructor: a new enemy stands at the first waypoint of the path.\<close>

definition newEnemy :: "point list \<Rightarrow> enemyData \<Rightarrow> enemy" where
  "newEnemy path d =
     \<lparr>e_x = px (path ! 0), e_y = py (path ! 0), e_id = ed_id d,
      maxHp = ed_hp d, hp = ed_hp d, baseSpeed = ed_speed d, speed = ed_speed d,
      reward = ed_reward d, pathIndex = 0, distanceAlongSegment = 0,
      reachedEnd = False, statusEffects = []\<rparr>"

definition isAlive :: "enemy \<Rightarrow> bool" where
  "isAlive e = (hp e > 0)"

definition recalculateSpeed :: "enemy \<Rightarrow> enemy" where
  "recalculateSpeed e =
     (let speedMultiplier = (case map_of (statusEffects e) ''slow'' of
                               Some slowEffect \<Rightarrow> 1 * (1 - val slowEffect)
                             | None \<Rightarrow> 1)
      in e\<lparr>speed := baseSpeed e * speedMultiplier\<rparr>)"

definition removeStatusEffect :: "string \<Rightarrow> enemy \<Rightarrow> enemy" where
  "removeStatusEffect ty e =
     recalculateSpeed (e\<lparr>statusEffects := AList.delete ty (statusEffects e)\<rparr>)"

definition applyStatusEffect :: "string \<Rightarrow> real \<Rightarrow> real \<Rightarrow> enemy \<Rightarrow> enemy" where
  "applyStatusEffect ty v d e =
     (if e_id e = ''pest_boss'' \<and> ty = ''slow'' \<and> v < 0.35 then e
      else (case map_of (statusEffects e) ty of
              None \<Rightarrow>
                recalculateSpeed
                  (e\<lparr>statusEffects :=
                       AList.update ty \<lparr>val = v, duration = d\<rparr> (statusEffects e)\<rparr>)
            | Some existingEffect \<Rightarrow>
                if val existingEffect < v \<or> duration existingEffect < d
                then recalculateSpeed
                       (e\<lparr>statusEffects :=
                            AList.update ty \<lparr>val = v, duration = d\<rparr> (statusEffects e)\<rparr>)
                else e))"

text \<open>
  One iteration of the loop of \<open>updateStatusEffects\<close>, for the entry with key \<open>ty\<close>:
  the duration is decreased in place and an expired entry is removed.
\<close>

definition decayEffect :: "real \<Rightarrow> string \<Rightarrow> enemy \<Rightarrow> enemy" where
  "decayEffect dt ty e =
     (case map_of (statusEffects e) ty of
        None \<Rightarrow> e
      | Some eff \<Rightarrow>
          (let eff' = eff\<lparr>duration := duration eff - dt\<rparr>;
               e' = e\<lparr>statusEffects := AList.update ty eff' (statusEffects e)\<rparr>
           in if duration eff' \<le> 0 then removeStatusEffect ty e' else e'))"

definition updateStatusEffects :: "real \<Rightarrow> enemy \<Rightarrow> enemy" where
  "updateStatusEffects dt e = fold (decayEffect dt) (map fst (statusEffects e)) e"

text \<open>
  \<open>path\<close> is the global waypoint array of config.js, a parameter here. The first test
  is \<open>pathIndex >= path.length - 1\<close>, on integers, so that an empty path does not
  underflow.
\<close>

definition atLastWaypoint :: "point list \<Rightarrow> nat \<Rightarrow> bool" where
  "atLastWaypoint path i = (int i \<ge> int (length path) - 1)"

definition segmentLength :: "point list \<Rightarrow> nat \<Rightarrow> real" where
  "segmentLength path i =
     hypot (px (path ! (i + 1)) - px (path ! i)) (py (path ! (i + 1)) - py (path ! i))"

definition moveAlongPath :: "point list \<Rightarrow> real \<Rightarrow> enemy \<Rightarrow> enemy" where
  "moveAlongPath path dt e =
     (if atLastWaypoint path (pathIndex e) then e\<lparr>reachedEnd := True\<rparr>
      else
        (let currentPoint = path ! pathIndex e;
             nextPoint = path ! (pathIndex e + 1);
             dx = px nextPoint - px currentPoint;
             dy = py nextPoint - py currentPoint;
             moveDistance = speed e * dt * ENEMY_SPEED_MULTIPLIER;
             e1 = e\<lparr>distanceAlongSegment := distanceAlongSegment e + moveDistance\<rparr>
         in if distanceAlongSegment e1 \<ge> segmentLength path (pathIndex e)
            then (let e2 = e1\<lparr>pathIndex := pathIndex e1 + 1, distanceAlongSegment := 0\<rparr>
                  in if atLastWaypoint path (pathIndex e2)
                     then e2\<lparr>reachedEnd := True\<rparr> else e2)
            else (let t = distanceAlongSegment e1 / segmentLength path (pathIndex e)
                  in e1\<lparr>e_x := px currentPoint + dx * t,
                        e_y := py currentPoint + dy * t\<rparr>)))"

definition Enemy_update :: "point list \<Rightarrow> real \<Rightarrow> enemy \<Rightarrow> enemy" where
  "Enemy_update path dt e =
     (if reachedEnd e \<or> \<not> isAlive e then e
      else moveAlongPath path dt (updateStatusEffects dt e))"

text \<open>\<open>takeDamage\<close> returns whether the enemy died; the new enemy is the state.\<close>

definition takeDamage :: "real \<Rightarrow> enemy \<Rightarrow> enemy" where
  "takeDamage amount e = e\<lparr>hp := max 0 (hp e - amount)\<rparr>"

text \<open>The waypoints of config.js and two enemies used as concrete inputs below.\<close>

definition path0 :: "point list" where
  "path0 = [\<lparr>px = -50, py = 200\<rparr>, \<lparr>px = 300, py = 200\<rparr>, \<lparr>px = 300, py = 400\<rparr>,
            \<lparr>px = 600, py = 400\<rparr>, \<lparr>px = 600, py = 100\<rparr>, \<lparr>px = 900, py = 100\<rparr>,
            \<lparr>px = 900, py = 500\<rparr>, \<lparr>px = 1250, py = 500\<rparr>]"

definition grub :: enemy where
  "grub = newEnemy path0 \<lparr>ed_id = ''grub'', ed_hp = 30, ed_speed = 1, ed_reward = 5\<rparr>"

definition slowedBoss :: enemy where
  "slowedBoss =
     (newEnemy path0 \<lparr>ed_id = ''pest_boss'', ed_hp = 500, ed_speed = 1, ed_reward = 100\<rparr>)
       \<lparr>speed := 0.6, statusEffects := [(''slow'', \<lparr>val = 0.4, duration = 0.5\<rparr>)]\<rparr>"

section \<open>Tower (entities.js)\<close>

text \<open>\<open>Entity.distanceTo\<close> and \<open>Entity.isInRange\<close>, on the coordinates of the two
  entities. A comparison with an undefined range is false.\<close>

definition distanceTo :: "real \<Rightarrow> real \<Rightarrow> real \<Rightarrow> real \<Rightarrow> real" where
  "distanceTo x y ox oy = hypot (x - ox) (y - oy)"

definition isInRange :: "real \<Rightarrow> real \<Rightarrow> real \<Rightarrow> real \<Rightarrow> real option \<Rightarrow> bool" where
  "isInRange x y ox oy r =
     (case r of None \<Rightarrow> False | Some rng \<Rightarrow> distanceTo x y ox oy \<le> rng)"

datatype tower_type = Eco | Single | SingleHeavy | Aoe | Support | SupportSensor

record ability_rec =
  slow_pct :: "real option"

text \<open>
  The stat object of a tower level (\<open>base\<close> or an entry of \<open>upgrades\<close>), with the
  properties that the simulation core reads; \<open>srange\<close> is the property \<open>range\<close>.
\<close>

record stat_block =
  dmg :: "real option"
  firerate_s :: "real option"
  srange :: "real option"
  income :: "real option"
  interval_s :: "real option"
  buff_firerate_pct :: "real option"
  buff_range_pct :: "real option"
  aoe_radius :: "real option"
  ability :: "ability_rec option"
  cost :: "real option"

definition emptyStats :: stat_block where
  "emptyStats =
     \<lparr>dmg = None, firerate_s = None, srange = None, income = None, interval_s = None,
      buff_firerate_pct = None, buff_range_pct = None, aoe_radius = None,
      ability = None, cost = None\<rparr>"

record tower_def =
  td_id :: string
  td_type :: tower_type
  cost_place :: real
  base :: stat_block
  upgrades :: "stat_block list"

record infection_rec =
  cureClicks :: nat
  cureRequired :: int

text \<open>
  \<open>game_settings.infection_mechanic\<close>; \<open>effect_firerate_pct\<close> and \<open>effect_range_pct\<close>
  are \<open>effect.firerate_pct\<close> and \<open>effect.range_pct\<close>. The functions that read it take
  it as a parameter: they run only in a game whose settings define the mechanic.
\<close>

record infection_mechanic =
  every_s :: real
  cure_clicks_required :: int
  effect_firerate_pct :: real
  effect_range_pct :: real

record tower =
  t_x :: real
  t_y :: real
  t_id :: string
  towerData :: tower_def
  ttype :: tower_type
  level :: nat
  totalCost :: real
  cooldown :: "real option"
  stats :: stat_block
  baseStats :: stat_block
  buffedStats :: stat_block
  infection :: "infection_rec option"

text \<open>
  Towers are objects shared by reference: the array \<open>gameState.towers\<close>, the selection
  and the callers of the methods all point to the same objects. The model keeps the
  objects in a store indexed by address; a reference is an address, and \<open>tower === this\<close>
  is equality of addresses.
\<close>

type_synonym tower_store = "nat \<Rightarrow> tower"

text \<open>\<open>if (s.f) s.f *= m\<close>: the property is scaled when it is defined and not zero.\<close>

fun scaleStat :: "real option \<Rightarrow> real \<Rightarrow> real option" where
  "scaleStat None m = None"
| "scaleStat (Some v) m = (if v \<noteq> 0 then Some (fl (v * m)) else Some v)"

text \<open>The data of the tower's level; a copy of a missing upgrade entry is empty.\<close>

definition levelData :: "tower \<Rightarrow> stat_block" where
  "levelData t =
     (if level t = 0 then base (towerData t)
      else if level t - 1 < length (upgrades (towerData t))
           then upgrades (towerData t) ! (level t - 1)
           else emptyStats)"

text \<open>The body of the \<open>forEach\<close> of \<open>calculateBuffedStats\<close>, on the two multipliers.\<close>

definition buffStep :: "tower_store \<Rightarrow> nat \<Rightarrow> nat \<Rightarrow> real \<times> real \<Rightarrow> real \<times> real" where
  "buffStep h this tw acc =
     (if tw = this \<or> ttype (h tw) \<noteq> Support then acc
      else if \<not> isInRange (t_x (h this)) (t_y (h this)) (t_x (h tw)) (t_y (h tw))
                   (srange (baseStats (h tw))) then acc
      else (let buffs = baseStats (h tw);
                firerateMultiplier =
                  (if truthy (buff_firerate_pct buffs)
                   then fl (fst acc * fl (1 - fl (the (buff_firerate_pct buffs) / 100)))
                   else fst acc);
                rangeMultiplier =
                  (if truthy (buff_range_pct buffs)
                   then fl (snd acc * fl (1 + fl (the (buff_range_pct buffs) / 100)))
                   else snd acc)
            in (firerateMultiplier, rangeMultiplier)))"

definition calculateBuffedStats :: "tower_store \<Rightarrow> nat \<Rightarrow> nat list \<Rightarrow> stat_block" where
  "calculateBuffedStats h this allTowers =
     (let stats0 = baseStats (h this)
      in if ttype (h this) = Support \<or> ttype (h this) = SupportSensor then stats0
         else (let (firerateMultiplier, rangeMultiplier) =
                     fold (buffStep h this) allTowers (1, 1)
               in stats0\<lparr>firerate_s := scaleStat (firerate_s stats0) firerateMultiplier,
                         srange := scaleStat (srange stats0) rangeMultiplier\<rparr>))"

definition applyInfectionDebuff :: "infection_mechanic \<Rightarrow> tower \<Rightarrow> stat_block \<Rightarrow> stat_block" where
  "applyInfectionDebuff im t st =
     (if infection t = None then st
      else st\<lparr>firerate_s := scaleStat (firerate_s st)
                              (fl (1 + fl (\<bar>effect_firerate_pct im\<bar> / 100))),
              srange := scaleStat (srange st) (fl (1 + fl (effect_range_pct im / 100)))\<rparr>)"

text \<open>\<open>this.applyStats(allTowers)\<close> for the tower at address \<open>this\<close>.\<close>

definition applyStats :: "infection_mechanic \<Rightarrow> tower_store \<Rightarrow> nat \<Rightarrow> nat list \<Rightarrow> tower_store" where
  "applyStats im h this allTowers =
     (let h1 = h(this := (h this)\<lparr>baseStats := levelData (h this)\<rparr>);
          buffed = calculateBuffedStats h1 this allTowers;
          t2 = (h1 this)\<lparr>buffedStats := buffed\<rparr>
      in h1(this := (if infection t2 \<noteq> None
                     then t2\<lparr>stats := applyInfectionDebuff im t2 buffed\<rparr>
                     else t2\<lparr>stats := buffed\<rparr>)))"

text \<open>\<open>towers.forEach(t => t.applyStats(towers))\<close>, the recompute of game.js.\<close>

definition applyStatsAll :: "infection_mechanic \<Rightarrow> tower_store \<Rightarrow> nat list \<Rightarrow> tower_store" where
  "applyStatsAll im h ts = fold (\<lambda>tw h'. applyStats im h' tw ts) ts h"

text \<open>The constructor, writing the new tower at address \<open>this\<close>; it ends with
  \<open>this.applyStats()\<close>, whose parameter defaults to the empty array.\<close>

definition newTower ::
  "infection_mechanic \<Rightarrow> tower_store \<Rightarrow> nat \<Rightarrow> real \<Rightarrow> real \<Rightarrow> tower_def \<Rightarrow> tower_store" where
  "newTower im h this x y td =
     applyStats im
       (h(this := \<lparr>t_x = x, t_y = y, t_id = td_id td, towerData = td, ttype = td_type td,
                   level = 0, totalCost = cost_place td, cooldown = Some 0,
                   stats = emptyStats, baseStats = emptyStats, buffedStats = emptyStats,
                   infection = None\<rparr>))
       this []"

definition infect :: "infection_mechanic \<Rightarrow> tower_store \<Rightarrow> nat \<Rightarrow> tower_store" where
  "infect im h this =
     (if ttype (h this) = SupportSensor then h
      else applyStats im
             (h(this := (h this)\<lparr>infection :=
                  Some \<lparr>cureClicks = 0, cureRequired = cure_clicks_required im\<rparr>\<rparr>))
             this [])"

definition isInfected :: "tower \<Rightarrow> bool" where
  "isInfected t = (infection t \<noteq> None)"


section \<open>Projectile and game state (entities.js, game.js)\<close>

record projectileData =
  pd_x :: real
  pd_y :: real
  pd_damage :: "real option"
  pd_towerId :: string
  pd_towerType :: tower_type
  pd_target :: "nat option"
  pd_targetPos :: "point option"
  pd_aoeRadius :: "real option"
  pd_ability :: "ability_rec option"

text \<open>A projectile; \<open>target\<close> is a reference to an enemy object. The fields that only
  serve drawing (trail, radius, colour) are left out.\<close>

record projectile =
  p_x :: real
  p_y :: real
  p_active :: bool
  damage :: "real option"
  towerId :: string
  towerType :: tower_type
  target :: "nat option"
  targetPos :: "point option"
  aoeRadius :: real
  p_speed :: real
  maxLifetime :: real
  lifetime :: real
  p_ability :: "ability_rec option"

definition newProjectile :: "projectileData \<Rightarrow> projectile" where
  "newProjectile d =
     \<lparr>p_x = pd_x d, p_y = pd_y d, p_active = True, damage = pd_damage d,
      towerId = pd_towerId d, towerType = pd_towerType d,
      target = pd_target d, targetPos = pd_targetPos d,
      aoeRadius = (case pd_aoeRadius d of Some r \<Rightarrow> r | None \<Rightarrow> 0),
      p_speed = PROJECTILE_SPEED, maxLifetime = 5, lifetime = 0,
      p_ability = pd_ability d\<rparr>"

text \<open>
  The part of \<open>GameState\<close> that the simulation core reads and writes. Enemies, like
  towers, are objects in a store; \<open>enemies\<close> and \<open>towers\<close> are the arrays of
  references. \<open>enemyCount\<close> is the number of enemy objects created so far, the address
  of the next one. \<open>damageDealt\<close> is the object keyed by tower id.
\<close>

record gameState =
  money :: real
  lives :: real
  waveInProgress :: bool
  enemyObjs :: "nat \<Rightarrow> enemy"
  enemyCount :: nat
  enemies :: "nat list"
  towerObjs :: tower_store
  towers :: "nat list"
  projectiles :: "projectile list"
  selectedTower :: "nat option"
  moneyEarned :: real
  infectionsTotal :: nat
  infectionsCured :: nat
  damageDealt :: "(string \<times> real) list"

definition earnMoney :: "real \<Rightarrow> gameState \<Rightarrow> gameState" where
  "earnMoney amount gs =
     gs\<lparr>money := money gs + amount, moneyEarned := moneyEarned gs + amount\<rparr>"

subsection \<open>Targeting and firing\<close>






definition createProjectile :: "tower \<Rightarrow> nat \<Rightarrow> (nat \<Rightarrow> enemy) \<Rightarrow> projectile" where
  "createProjectile t tgt eo =
     (let projectileData =
            \<lparr>pd_x = t_x t, pd_y = t_y t, pd_damage = dmg (stats t), pd_towerId = t_id t,
             pd_towerType = ttype t, pd_target = None, pd_targetPos = None,
             pd_aoeRadius = None, pd_ability = None\<rparr>
      in if ttype t = Aoe
         then newProjectile
                (projectileData
                   \<lparr>pd_targetPos := Some \<lparr>px = e_x (eo tgt), py = e_y (eo tgt)\<rparr>,
                    pd_aoeRadius := Some (if truthy (aoe_radius (stats t))
                                          then the (aoe_radius (stats t)) else 50)\<rparr>)
         else newProjectile
                (projectileData\<lparr>pd_target := Some tgt, pd_ability := ability (stats t)\<rparr>))"




subsection \<open>Projectile resolution\<close>

text \<open>
  \<open>damageDealt[towerId] += damage\<close>, done only when the key is present.
\<close>

definition recordDamage :: "string \<Rightarrow> real \<Rightarrow> gameState \<Rightarrow> gameState" where
  "recordDamage tid d gs =
     (case map_of (damageDealt gs) tid of
        None \<Rightarrow> gs
      | Some dealt \<Rightarrow> gs\<lparr>damageDealt := AList.update tid (dealt + d) (damageDealt gs)\<rparr>)"

definition damageEnemy :: "string \<Rightarrow> real \<Rightarrow> nat \<Rightarrow> gameState \<Rightarrow> gameState" where
  "damageEnemy tid d r gs =
     recordDamage tid d (gs\<lparr>enemyObjs := (enemyObjs gs)(r := takeDamage d (enemyObjs gs r))\<rparr>)"

text \<open>
  The methods of a projectile return the projectile and the game state. The result is
  \<open>None\<close> where the source has no number to compute with: a damage that is undefined,
  or the impact point of an area projectile that was never set (a TypeError).
\<close>

definition explode :: "projectile \<Rightarrow> gameState \<Rightarrow> (projectile \<times> gameState) option" where
  "explode p gs =
     (case damage p of
        None \<Rightarrow> None
      | Some d \<Rightarrow>
          (let targets =
                 filter (\<lambda>r. isAlive (enemyObjs gs r)
                            \<and> isInRange (p_x p) (p_y p) (e_x (enemyObjs gs r))
                                  (e_y (enemyObjs gs r)) (Some (aoeRadius p)))
                   (enemies gs)
           in Some (p\<lparr>p_active := False\<rparr>, fold (damageEnemy (towerId p) d) targets gs)))"

definition hit :: "projectile \<Rightarrow> gameState \<Rightarrow> (projectile \<times> gameState) option" where
  "hit p gs =
     (case target p of
        None \<Rightarrow> Some (p\<lparr>p_active := False\<rparr>, gs)
      | Some r \<Rightarrow>
          if \<not> isAlive (enemyObjs gs r) then Some (p\<lparr>p_active := False\<rparr>, gs)
          else (case damage p of
                  None \<Rightarrow> None
                | Some d \<Rightarrow>
                    (let gs1 = damageEnemy (towerId p) d r gs;
                         gs2 = (case p_ability p of
                                  None \<Rightarrow> gs1
                                | Some ab \<Rightarrow>
                                    if truthy (slow_pct ab)
                                    then gs1\<lparr>enemyObjs := (enemyObjs gs1)
                                           (r := applyStatusEffect ''slow''
                                                   (the (slow_pct ab) / 100) 1.5
                                                   (enemyObjs gs1 r))\<rparr>
                                    else gs1)
                     in Some (p\<lparr>p_active := False\<rparr>, gs2))))"

definition moveToward :: "real \<Rightarrow> real \<Rightarrow> real \<Rightarrow> real \<Rightarrow> projectile \<Rightarrow> projectile" where
  "moveToward dx dy distance dt p =
     (let moveDistance = p_speed p * dt
      in p\<lparr>p_x := p_x p + (dx / distance) * moveDistance,
           p_y := p_y p + (dy / distance) * moveDistance\<rparr>)"

definition updateSingleTarget ::
  "real \<Rightarrow> projectile \<Rightarrow> gameState \<Rightarrow> (projectile \<times> gameState) option" where
  "updateSingleTarget dt p gs =
     (case target p of
        None \<Rightarrow> Some (p\<lparr>p_active := False\<rparr>, gs)
      | Some r \<Rightarrow>
          if \<not> isAlive (enemyObjs gs r) then Some (p\<lparr>p_active := False\<rparr>, gs)
          else (let dx = e_x (enemyObjs gs r) - p_x p;
                    dy = e_y (enemyObjs gs r) - p_y p;
                    distance = hypot dx dy
                in if distance < 10 then hit p gs
                   else Some (moveToward dx dy distance dt p, gs)))"

definition updateAOE ::
  "real \<Rightarrow> projectile \<Rightarrow> gameState \<Rightarrow> (projectile \<times> gameState) option" where
  "updateAOE dt p gs =
     (case targetPos p of
        None \<Rightarrow> None
      | Some tp \<Rightarrow>
          (let dx = px tp - p_x p;
               dy = py tp - p_y p;
               distance = hypot dx dy
           in if distance < 10 then explode p gs
              else Some (moveToward dx dy distance dt p, gs)))"

definition Projectile_update ::
  "real \<Rightarrow> projectile \<Rightarrow> gameState \<Rightarrow> (projectile \<times> gameState) option" where
  "Projectile_update dt p gs =
     (if \<not> p_active p then Some (p, gs)
      else (let p1 = p\<lparr>lifetime := lifetime p + dt\<rparr>
            in if lifetime p1 > maxLifetime p1 then Some (p1\<lparr>p_active := False\<rparr>, gs)
               else if aoeRadius p1 > 0 then updateAOE dt p1 gs
               else updateSingleTarget dt p1 gs))"

subsection \<open>Curing, infecting and selling (entities.js, game.js)\<close>

definition cure :: "infection_mechanic \<Rightarrow> nat \<Rightarrow> gameState \<Rightarrow> gameState" where
  "cure im this gs =
     (if infection (towerObjs gs this) = None then gs
      else (let h1 = (towerObjs gs)(this := (towerObjs gs this)\<lparr>infection := None\<rparr>)
            in gs\<lparr>towerObjs := applyStats im h1 this (towers gs),
                  infectionsCured := infectionsCured gs + 1\<rparr>))"

definition handleClickCure :: "infection_mechanic \<Rightarrow> nat \<Rightarrow> gameState \<Rightarrow> gameState" where
  "handleClickCure im this gs =
     (case infection (towerObjs gs this) of
        None \<Rightarrow> gs
      | Some i0 \<Rightarrow>
          (let i1 = i0\<lparr>cureClicks := cureClicks i0 + 1\<rparr>;
               gs1 = gs\<lparr>towerObjs :=
                         (towerObjs gs)(this := (towerObjs gs this)\<lparr>infection := Some i1\<rparr>)\<rparr>
           in if int (cureClicks i1) \<ge> cureRequired i1 then cure im this gs1 else gs1))"

definition tryClickCure :: "infection_mechanic \<Rightarrow> real \<Rightarrow> real \<Rightarrow> gameState \<Rightarrow> gameState" where
  "tryClickCure im x y gs =
     (case List.find (\<lambda>tw. hypot (x - t_x (towerObjs gs tw)) (y - t_y (towerObjs gs tw)) < 25
                           \<and> isInfected (towerObjs gs tw)) (towers gs) of
        None \<Rightarrow> gs
      | Some tw \<Rightarrow> handleClickCure im tw gs)"

text \<open>
  \<open>InfectionManager.infectRandomTower\<close>; \<open>rnd\<close> is the value of \<open>Math.random()\<close>, a
  number in [0, 1).
\<close>

definition infectRandomTower :: "infection_mechanic \<Rightarrow> real \<Rightarrow> gameState \<Rightarrow> gameState" where
  "infectRandomTower im rnd gs =
     (let eligible = filter (\<lambda>tw. \<not> isInfected (towerObjs gs tw)
                                 \<and> ttype (towerObjs gs tw) \<noteq> SupportSensor) (towers gs)
      in if eligible = [] then gs
         else (let tw = eligible ! nat \<lfloor>rnd * real (length eligible)\<rfloor>
               in gs\<lparr>towerObjs := infect im (towerObjs gs) tw,
                     infectionsTotal := infectionsTotal gs + 1\<rparr>))"

text \<open>
  \<open>GameManager.sellTower\<close>; the argument is \<open>None\<close> for a null reference.
  \<open>remove1\<close> is \<open>indexOf\<close> followed by \<open>splice(index, 1)\<close>: the first occurrence is
  removed, if there is one.
\<close>

definition sellTower :: "infection_mechanic \<Rightarrow> nat option \<Rightarrow> gameState \<Rightarrow> gameState" where
  "sellTower im tower gs =
     (case tower of
        None \<Rightarrow> gs
      | Some tw \<Rightarrow>
          (let sellValue = real_of_int \<lfloor>fl (totalCost (towerObjs gs tw) * fl 0.7)\<rfloor>;
               gs1 = earnMoney sellValue gs;
               gs2 = gs1\<lparr>towers := remove1 tw (towers gs1)\<rparr>;
               gs3 = (if selectedTower gs2 = Some tw
                      then gs2\<lparr>selectedTower := None\<rparr> else gs2)
           in gs3\<lparr>towerObjs := applyStatsAll im (towerObjs gs3) (towers gs3)\<rparr>))"

section \<open>WaveManager (game.js)\<close>

record group =
  enemy_id :: string
  count :: nat
  interval_ms :: real

record spawn =
  enemyData :: enemyData
  spawnTime :: real

record waveManager =
  spawnQueue :: "spawn list"
  spawnTimer :: real

text \<open>The pushes of one composition group; a group of an unknown enemy is skipped.\<close>

definition pushGroup :: "enemyData list \<Rightarrow> group \<Rightarrow> spawn list \<Rightarrow> spawn list" where
  "pushGroup eds g q =
     (case List.find (\<lambda>e. ed_id e = enemy_id g) eds of
        None \<Rightarrow> q
      | Some ed \<Rightarrow>
          q @ map (\<lambda>i. \<lparr>enemyData = ed,
                         spawnTime = fl (real i * fl (interval_ms g / 1000))\<rparr>)
                [0..<count g])"

text \<open>
  \<open>startWave(waveNumber)\<close>, with the enemy definitions and the waves of the game data
  (a wave is its composition); it returns its boolean and the new manager.
\<close>

definition startWave ::
  "enemyData list \<Rightarrow> group list list \<Rightarrow> nat \<Rightarrow> waveManager \<Rightarrow> bool \<times> waveManager" where
  "startWave eds waves waveNumber wm =
     (if waveNumber = 0 \<or> waveNumber - 1 \<ge> length waves then (False, wm)
      else (let composition = waves ! (waveNumber - 1)
            in (True, wm\<lparr>spawnQueue := fold (pushGroup eds) composition [],
                         spawnTimer := 0\<rparr>)))"

text \<open>\<open>gameState.enemies.push(new Enemy(enemyData))\<close>.\<close>

definition spawnEnemy :: "point list \<Rightarrow> enemyData \<Rightarrow> gameState \<Rightarrow> gameState" where
  "spawnEnemy path ed gs =
     gs\<lparr>enemyObjs := (enemyObjs gs)(enemyCount gs := newEnemy path ed),
        enemies := enemies gs @ [enemyCount gs],
        enemyCount := enemyCount gs + 1\<rparr>"

text \<open>The \<open>while\<close> loop of \<open>update\<close>: it shifts the head of the queue while it is due.\<close>

fun drainQueue ::
  "point list \<Rightarrow> real \<Rightarrow> spawn list \<Rightarrow> gameState \<Rightarrow> spawn list \<times> gameState" where
  "drainQueue path timer [] gs = ([], gs)"
| "drainQueue path timer (sp # q) gs =
     (if spawnTime sp \<le> timer
      then drainQueue path timer q (spawnEnemy path (enemyData sp) gs)
      else (sp # q, gs))"

definition WaveManager_update ::
  "point list \<Rightarrow> real \<Rightarrow> waveManager \<Rightarrow> gameState \<Rightarrow> waveManager \<times> gameState" where
  "WaveManager_update path dt wm gs =
     (if spawnQueue wm = [] then (wm, gs)
      else (let timer = fl (spawnTimer wm + dt);
                (q, gs') = drainQueue path timer (spawnQueue wm) gs
            in (wm\<lparr>spawnQueue := q, spawnTimer := timer\<rparr>, gs')))"

section \<open>The stats that a recompute is to produce\<close>

text \<open>
  The words of the specification, in the arithmetic of the program: a support tower
  qualifies for a target, another tower, when the target lies within the support's own
  unbuffed range; the factor of a support is \<open>1 - buffPct/100\<close> for the firerate and
  \<open>1 + buffPct/100\<close> for the range; the multiplier is the product of the factors of the
  qualifying supports that define a percentage other than 0, taken in the order of the
  tower array, every operation rounded; the buffed stats are the base stats of the level
  times the multipliers; the effective stats are the buffed stats, times the infection
  debuff when the tower is infected.
\<close>

fun pct :: "real option \<Rightarrow> real" where
  "pct None = 0"
| "pct (Some p) = p"

definition qualifies :: "tower_store \<Rightarrow> nat \<Rightarrow> nat \<Rightarrow> bool" where
  "qualifies h this tw =
     (tw \<noteq> this \<and> ttype (h tw) = Support
      \<and> isInRange (t_x (h this)) (t_y (h this)) (t_x (h tw)) (t_y (h tw))
            (srange (baseStats (h tw))))"

definition firerateFactor :: "tower \<Rightarrow> real" where
  "firerateFactor s = fl (1 - fl (pct (buff_firerate_pct (baseStats s)) / 100))"

definition rangeFactor :: "tower \<Rightarrow> real" where
  "rangeFactor s = fl (1 + fl (pct (buff_range_pct (baseStats s)) / 100))"

definition firerateBuff :: "tower_store \<Rightarrow> nat \<Rightarrow> nat list \<Rightarrow> real" where
  "firerateBuff h this allTowers =
     fold (\<lambda>tw m. fl (m * firerateFactor (h tw)))
       (filter (\<lambda>tw. qualifies h this tw \<and> truthy (buff_firerate_pct (baseStats (h tw))))
          allTowers) 1"

definition rangeBuff :: "tower_store \<Rightarrow> nat \<Rightarrow> nat list \<Rightarrow> real" where
  "rangeBuff h this allTowers =
     fold (\<lambda>tw m. fl (m * rangeFactor (h tw)))
       (filter (\<lambda>tw. qualifies h this tw \<and> truthy (buff_range_pct (baseStats (h tw))))
          allTowers) 1"

definition buffedOf :: "tower_store \<Rightarrow> nat \<Rightarrow> nat list \<Rightarrow> stat_block" where
  "buffedOf h this allTowers =
     (if ttype (h this) = Support \<or> ttype (h this) = SupportSensor then levelData (h this)
      else (levelData (h this))
             \<lparr>firerate_s := map_option (\<lambda>v. fl (v * firerateBuff h this allTowers))
                              (firerate_s (levelData (h this))),
              srange := map_option (\<lambda>v. fl (v * rangeBuff h this allTowers))
                          (srange (levelData (h this)))\<rparr>)"

definition infectionDebuff :: "infection_mechanic \<Rightarrow> stat_block \<Rightarrow> stat_block" where
  "infectionDebuff im st =
     st\<lparr>firerate_s :=
          map_option (\<lambda>v. fl (v * fl (1 + fl (\<bar>effect_firerate_pct im\<bar> / 100)))) (firerate_s st),
        srange :=
          map_option (\<lambda>v. fl (v * fl (1 + fl (effect_range_pct im / 100)))) (srange st)\<rparr>"

definition effectiveStats :: "infection_mechanic \<Rightarrow> tower_store \<Rightarrow> nat \<Rightarrow> nat list \<Rightarrow> stat_block" where
  "effectiveStats im h this allTowers =
     (if infection (h this) = None then buffedOf h this allTowers
      else infectionDebuff im (buffedOf h this allTowers))"

text \<open>
  The base stats of the listed towers are those of their levels. The constructor and
  \<open>upgrade\<close> end with \<open>applyStats\<close>, which sets them so, and nothing else writes
  \<open>level\<close> or \<open>baseStats\<close>: every tower of a running game satisfies it.
\<close>

definition baseStatsCurrent :: "tower_store \<Rightarrow> nat list \<Rightarrow> bool" where
  "baseStatsCurrent h ts \<longleftrightarrow> (\<forall>r \<in> set ts. baseStats (h r) = levelData (h r))"

text \<open>Two towers are the same as a source of buffs: what \<open>calculateBuffedStats\<close> reads
  of a tower other than its own.\<close>

definition sameSource :: "tower \<Rightarrow> tower \<Rightarrow> bool" where
  "sameSource a b \<longleftrightarrow>
     t_x a = t_x b \<and> t_y a = t_y b \<and> ttype a = ttype b \<and> baseStats a = baseStats b"


section \<open>Concrete inputs\<close>

definition im0 :: infection_mechanic where
  "im0 = \<lparr>every_s = 30, cure_clicks_required = 4, effect_firerate_pct = 50,
          effect_range_pct = -25\<rparr>"

definition greenhouseDef :: tower_def where
  "greenhouseDef =
     \<lparr>td_id = ''greenhouse'', td_type = Support, cost_place = 90,
      base = emptyStats\<lparr>srange := Some 100, buff_firerate_pct := Some 25,
                        buff_range_pct := Some 25\<rparr>,
      upgrades = []\<rparr>"

definition droneDef :: tower_def where
  "droneDef =
     \<lparr>td_id = ''drone'', td_type = Single, cost_place = 130,
      base = emptyStats\<lparr>dmg := Some 10, firerate_s := Some 1, srange := Some 100\<rparr>,
      upgrades = []\<rparr>"

definition noTower :: tower where
  "noTower =
     \<lparr>t_x = 0, t_y = 0, t_id = [],
      towerData = \<lparr>td_id = [], td_type = Eco, cost_place = 0, base = emptyStats,
                   upgrades = []\<rparr>,
      ttype = Eco, level = 0, totalCost = 0, cooldown = Some 0, stats = emptyStats,
      baseStats = emptyStats, buffedStats = emptyStats, infection = None\<rparr>"

text \<open>A greenhouse at (100, 100), address 0, and a drone at (150, 100), address 1, as
  they are after the placement of the drone: the drone is buffed by the greenhouse.\<close>

definition greenhouse0 :: tower where
  "greenhouse0 =
     \<lparr>t_x = 100, t_y = 100, t_id = ''greenhouse'', towerData = greenhouseDef,
      ttype = Support, level = 0, totalCost = 90, cooldown = Some 0,
      stats = base greenhouseDef, baseStats = base greenhouseDef,
      buffedStats = base greenhouseDef, infection = None\<rparr>"

definition droneBuffed :: stat_block where
  "droneBuffed = emptyStats\<lparr>dmg := Some 10, firerate_s := Some 0.75, srange := Some 125\<rparr>"

definition drone1 :: tower where
  "drone1 =
     \<lparr>t_x = 150, t_y = 100, t_id = ''drone'', towerData = droneDef,
      ttype = Single, level = 0, totalCost = 130, cooldown = Some 0,
      stats = droneBuffed, baseStats = base droneDef,
      buffedStats = droneBuffed, infection = None\<rparr>"

definition placedStore :: tower_store where
  "placedStore = (\<lambda>_. noTower)(0 := greenhouse0, 1 := drone1)"



definition game0 :: gameState where
  "game0 = \<lparr>money = 500, lives = 20, waveInProgress = True, enemyObjs = (\<lambda>_. grub),
            enemyCount = 0, enemies = [], towerObjs = placedStore, towers = [0, 1],
            projectiles = [], selectedTower = None, moneyEarned = 500,
            infectionsTotal = 0, infectionsCured = 0,
            damageDealt = [(''greenhouse'', 0), (''drone'', 0)]\<rparr>"

text \<open>Four enemies for the drone at (150, 100), range 125: enemies 0, 1 and 3 are within
  range on the first segment, enemy 2 is further along the path and out of range.\<close>

definition enemyStore0 :: "nat \<Rightarrow> enemy" where
  "enemyStore0 =
     (\<lambda>_. grub)(0 := grub\<lparr>e_x := 150, e_y := 120, hp := 30\<rparr>,
                 1 := grub\<lparr>e_x := 150, e_y := 130, hp := 50\<rparr>,
                 2 := grub\<lparr>e_x := 150, e_y := 300, pathIndex := 1\<rparr>,
                 3 := grub\<lparr>e_x := 150, e_y := 110, hp := 50\<rparr>)"

text \<open>An area tower whose stats define a slow ability, the game with the four enemies,
  and a projectile of that tower, fired at enemy 0 and now 5 away from its impact point.\<close>

definition sprinkler2 :: tower where
  "sprinkler2 =
     \<lparr>t_x = 150, t_y = 100, t_id = ''sprinkler'',
      towerData = \<lparr>td_id = ''sprinkler'', td_type = Aoe, cost_place = 200,
                   base = emptyStats\<lparr>dmg := Some 5, firerate_s := Some 2, srange := Some 100,
                                     aoe_radius := Some 60,
                                     ability := Some \<lparr>slow_pct = Some 40\<rparr>\<rparr>,
                   upgrades = []\<rparr>,
      ttype = Aoe, level = 0, totalCost = 200, cooldown = Some 0,
      stats = emptyStats\<lparr>dmg := Some 5, firerate_s := Some 2, srange := Some 100,
                         aoe_radius := Some 60, ability := Some \<lparr>slow_pct = Some 40\<rparr>\<rparr>,
      baseStats = emptyStats\<lparr>dmg := Some 5, firerate_s := Some 2, srange := Some 100,
                             aoe_radius := Some 60, ability := Some \<lparr>slow_pct = Some 40\<rparr>\<rparr>,
      buffedStats = emptyStats\<lparr>dmg := Some 5, firerate_s := Some 2, srange := Some 100,
                               aoe_radius := Some 60, ability := Some \<lparr>slow_pct = Some 40\<rparr>\<rparr>,
      infection = None\<rparr>"

definition game2 :: gameState where
  "game2 = game0\<lparr>enemyObjs := enemyStore0, enemyCount := 4, enemies := [0, 1, 2, 3],
                  damageDealt := [(''sprinkler'', 0)]\<rparr>"

definition shot :: projectile where
  "shot = (createProjectile sprinkler2 0 enemyStore0)\<lparr>p_x := 150, p_y := 115\<rparr>"

text \<open>A wave of two composition groups, two ants one second apart and one beetle; the
  manager after \<open>startWave(1)\<close>, and manager and game after one tick of 0.1 s.\<close>

definition antData :: enemyData where
  "antData = \<lparr>ed_id = ''ant'', ed_hp = 20, ed_speed = 1, ed_reward = 5\<rparr>"

definition beetleData :: enemyData where
  "beetleData = \<lparr>ed_id = ''beetle'', ed_hp = 60, ed_speed = 0.5, ed_reward = 10\<rparr>"

definition waves0 :: "group list list" where
  "waves0 = [[\<lparr>enemy_id = ''ant'', count = 2, interval_ms = 1000\<rparr>,
              \<lparr>enemy_id = ''beetle'', count = 1, interval_ms = 1000\<rparr>]]"

definition waveStarted :: waveManager where
  "waveStarted =
     snd (startWave [antData, beetleData] waves0 1 \<lparr>spawnQueue = [], spawnTimer = 5\<rparr>)"

definition waveTicked :: "waveManager \<times> gameState" where
  "waveTicked = WaveManager_update path0 0.1 waveStarted game0"

text \<open>The game after \<open>infectRandomTower\<close> has drawn 0.5: the second of the two
  eligible towers, the drone, is infected.\<close>

definition game1 :: gameState where
  "game1 = infectRandomTower im0 0.5 game0"

section \<open>Properties of enemies\<close>

lemma distinct_keys_update:
  "distinct (map fst al) \<Longrightarrow> distinct (map fst (AList.update k v al))"
  by (simp add: distinct_update)

lemma distinct_keys_delete:
  "distinct (map fst al) \<Longrightarrow> distinct (map fst (AList.delete k al))"
  by (simp add: distinct_delete)

lemma statusEffects_recalculateSpeed [simp]:
  "statusEffects (recalculateSpeed e) = statusEffects e"
  by (simp add: recalculateSpeed_def Let_def)

lemma distinct_decayEffect:
  "distinct (map fst (statusEffects e)) \<Longrightarrow>
   distinct (map fst (statusEffects (decayEffect dt ty e)))"
  by (simp add: decayEffect_def removeStatusEffect_def Let_def distinct_keys_update
        distinct_keys_delete split: option.splits)

lemma distinct_fold_decayEffect:
  "distinct (map fst (statusEffects e)) \<Longrightarrow>
   distinct (map fst (statusEffects (fold (decayEffect dt) tys e)))"
  by (induction tys arbitrary: e) (simp_all add: distinct_decayEffect)

text \<open>
  C10. An enemy that has reached the end, or whose hp is 0, is returned by
  \<open>Enemy.update\<close> as it was, for every dt: no field changes, so it neither moves nor
  decays its status effects.
\<close>

theorem C10_update_frozen:
  "reachedEnd e \<or> hp e = 0 \<Longrightarrow> Enemy_update path dt e = e"
  by (auto simp: Enemy_update_def isAlive_def)

theorem C10_update_frozen_witness:
  "(reachedEnd (grub\<lparr>hp := 0\<rparr>) \<or> hp (grub\<lparr>hp := 0\<rparr>) = 0)
   \<and> Enemy_update path0 0.016 (grub\<lparr>hp := 0\<rparr>) = grub\<lparr>hp := 0\<rparr>"
  using C10_update_frozen [of "grub\<lparr>hp := 0\<rparr>" path0 "0.016"] by simp

text \<open>
  C5, as amended. The keys of the status-effect map stay pairwise distinct (one record
  per effect type) from construction on, through \<open>applyStatusEffect\<close> and the decay
  of \<open>updateStatusEffects\<close>. Unless the enemy is the boss receiving a slow of value
  below 0.35, \<open>applyStatusEffect\<close> replaces an existing record of the same type
  exactly when the new value is strictly greater or the new duration is strictly
  greater than the remaining one, the other records staying as they are; otherwise the
  enemy, its record and its speed included, is unchanged. The boss receiving a slow
  below 0.35 is unchanged whatever the existing record.
\<close>

theorem C5_applyStatusEffect_replaces:
  "distinct (map fst (statusEffects (newEnemy path ed)))
   \<and> (distinct (map fst (statusEffects e)) \<longrightarrow>
        distinct (map fst (statusEffects (applyStatusEffect ty v d e)))
        \<and> distinct (map fst (statusEffects (updateStatusEffects dt e))))
   \<and> (\<forall>old. map_of (statusEffects e) ty = Some old
             \<and> \<not> (e_id e = ''pest_boss'' \<and> ty = ''slow'' \<and> v < 0.35) \<longrightarrow>
         (if val old < v \<or> duration old < d
          then map_of (statusEffects (applyStatusEffect ty v d e))
                 = (map_of (statusEffects e))(ty \<mapsto> \<lparr>val = v, duration = d\<rparr>)
          else applyStatusEffect ty v d e = e))
   \<and> (e_id e = ''pest_boss'' \<and> ty = ''slow'' \<and> v < 0.35 \<longrightarrow>
         applyStatusEffect ty v d e = e)"
proof -
  have fresh: "distinct (map fst (statusEffects (newEnemy path ed)))"
    by (simp add: newEnemy_def)
  have keep: "distinct (map fst (statusEffects e)) \<longrightarrow>
        distinct (map fst (statusEffects (applyStatusEffect ty v d e)))
        \<and> distinct (map fst (statusEffects (updateStatusEffects dt e)))"
    by (simp add: applyStatusEffect_def updateStatusEffects_def distinct_keys_update
          distinct_fold_decayEffect split: option.splits)
  have repl: "\<forall>old. map_of (statusEffects e) ty = Some old
             \<and> \<not> (e_id e = ''pest_boss'' \<and> ty = ''slow'' \<and> v < 0.35) \<longrightarrow>
         (if val old < v \<or> duration old < d
          then map_of (statusEffects (applyStatusEffect ty v d e))
                 = (map_of (statusEffects e))(ty \<mapsto> \<lparr>val = v, duration = d\<rparr>)
          else applyStatusEffect ty v d e = e)"
    by (simp add: applyStatusEffect_def update_conv')
  have boss: "e_id e = ''pest_boss'' \<and> ty = ''slow'' \<and> v < 0.35 \<longrightarrow>
         applyStatusEffect ty v d e = e"
    by (simp add: applyStatusEffect_def)
  from fresh keep repl boss show ?thesis by blast
qed

theorem C5_applyStatusEffect_replaces_witness:
  "distinct (map fst (statusEffects (slowedBoss\<lparr>e_id := ''grub''\<rparr>)))
   \<and> map_of (statusEffects (slowedBoss\<lparr>e_id := ''grub''\<rparr>)) ''slow''
       = Some \<lparr>val = 0.4, duration = 0.5\<rparr>
   \<and> map_of (statusEffects (applyStatusEffect ''slow'' 0.3 1.5 (slowedBoss\<lparr>e_id := ''grub''\<rparr>)))
       ''slow'' = Some \<lparr>val = 0.3, duration = 1.5\<rparr>
   \<and> applyStatusEffect ''slow'' 0.3 0.2 (slowedBoss\<lparr>e_id := ''grub''\<rparr>)
       = slowedBoss\<lparr>e_id := ''grub''\<rparr>
   \<and> applyStatusEffect ''slow'' 0.3 1.5 slowedBoss = slowedBoss"
  using C5_applyStatusEffect_replaces
          [of path0 antData "slowedBoss\<lparr>e_id := ''grub''\<rparr>" "''slow''" "0.3" "1.5" 0]
        C5_applyStatusEffect_replaces
          [of path0 antData "slowedBoss\<lparr>e_id := ''grub''\<rparr>" "''slow''" "0.3" "0.2" 0]
        C5_applyStatusEffect_replaces [of path0 antData slowedBoss "''slow''" "0.3" "1.5" 0]
  by (simp add: slowedBoss_def newEnemy_def)

text \<open>
  The claim as first stated fails on the boss: it carries a slow of value 0.4 with 0.5 s
  left, the new slow of value 0.3 lasts 1.5 s, strictly longer, and yet nothing is
  replaced.
\<close>

theorem C5_boss_counterexample:
  "map_of (statusEffects slowedBoss) ''slow'' = Some \<lparr>val = 0.4, duration = 0.5\<rparr>
   \<and> duration \<lparr>val = 0.4, duration = 0.5\<rparr> < (1.5::real)
   \<and> applyStatusEffect ''slow'' 0.3 1.5 slowedBoss = slowedBoss"
  by (simp add: slowedBoss_def applyStatusEffect_def newEnemy_def)





section \<open>Properties of the stats recompute\<close>

subsection \<open>Rounding\<close>

lemma roundEven_of_int [simp]: "roundEven (of_int z) = z"
  by (simp add: roundEven_def)

lemma fl_0 [simp]: "fl 0 = 0"
  by (simp add: fl_def)

lemma floor_log2_binade:
  assumes "2 powi k \<le> \<bar>x\<bar>" and "\<bar>x\<bar> < 2 powi (k + 1)"
  shows "\<lfloor>log 2 \<bar>x\<bar>\<rfloor> = k"
proof -
  have pos: "0 < \<bar>x\<bar>"
    using assms(1) by (smt (verit) zero_less_power_int)
  have "(2::real) powr real_of_int k = 2 powi k"
    "(2::real) powr real_of_int (k + 1) = 2 powi (k + 1)"
    by (rule powr_real_of_int'; simp)+
  with assms have "(2::real) powr real_of_int k \<le> \<bar>x\<bar> \<and> \<bar>x\<bar> < 2 powr real_of_int (k + 1)"
    by simp
  then show ?thesis
    using floor_log_eq_powr_iff [of "\<bar>x\<bar>" 2 k] pos by simp
qed

text \<open>The value of \<open>fl\<close> on a number whose binade is known.\<close>

lemma fl_binade:
  assumes "2 powi k \<le> \<bar>x\<bar>" and "\<bar>x\<bar> < 2 powi (k + 1)"
  shows "fl x = of_int (roundEven (x / 2 powi (k - 52))) * 2 powi (k - 52)"
proof -
  have "x \<noteq> 0"
    using assms(1) by (smt (verit) zero_less_power_int)
  then show ?thesis
    by (simp add: fl_def floor_log2_binade [OF assms] Let_def)
qed

text \<open>A fraction with a power of two below and fewer than 54 bits above is a double.\<close>

lemma fl_dyadic:
  assumes "\<bar>m\<bar> < 2 ^ 53"
  shows "fl (of_int m / 2 ^ k) = of_int m / 2 ^ k"
proof (cases "m = 0")
  case True
  then show ?thesis by simp
next
  case False
  define x :: real where "x = of_int m / 2 ^ k"
  define e where "e = \<lfloor>log 2 \<bar>x\<bar>\<rfloor>"
  have x0: "x \<noteq> 0" using False by (simp add: x_def)
  then have pos: "0 < \<bar>x\<bar>" by simp
  have lo: "2 powr real_of_int e \<le> \<bar>x\<bar>"
    using floor_log_eq_powr_iff [of "\<bar>x\<bar>" 2 e] pos by (simp add: e_def)
  have "\<bar>x\<bar> = real_of_int \<bar>m\<bar> / 2 ^ k" by (simp add: x_def abs_divide)
  also have "\<dots> < 2 ^ 53 / 2 ^ k"
    using assms
    by (intro divide_strict_right_mono)
       (simp_all add: of_int_less_iff [symmetric] del: of_int_less_iff of_int_abs)
  finally have up: "\<bar>x\<bar> < 2 ^ 53 / 2 ^ k" .
  have eq: "(2::real) ^ 53 / 2 ^ k = 2 powr (53 - real k)"
    by (simp add: powr_diff powr_realpow [symmetric])
  from up have up': "\<bar>x\<bar> < 2 powr (53 - real k)" unfolding eq .
  from lo up' have "(2::real) powr real_of_int e < 2 powr (53 - real k)"
    by (rule le_less_trans)
  then have "real_of_int e < 53 - real k" by simp
  then have ek: "e + int k \<le> 52" by linarith
  define j where "j = nat (52 - e - int k)"
  have je: "int j = 52 - e - int k" using ek by (simp add: j_def)
  have u: "(2::real) powi (e - 52) = 1 / (2 ^ j * 2 ^ k)"
  proof -
    have "e - 52 = - int (j + k)" using je by simp
    then have "(2::real) powi (e - 52) = 2 powi (- int (j + k))" by (rule arg_cong)
    also have "\<dots> = 1 / 2 ^ (j + k)"
      by (simp only: power_int_minus power_int_of_nat inverse_eq_divide)
    finally show ?thesis by (simp add: power_add)
  qed
  have "x / 2 powi (e - 52) = of_int (m * 2 ^ j)"
    by (simp add: x_def u)
  then have "roundEven (x / 2 powi (e - 52)) = m * 2 ^ j"
    by (simp only: roundEven_of_int)
  then have "fl x = of_int (m * 2 ^ j) * (1 / (2 ^ j * 2 ^ k))"
    using x0 by (simp add: fl_def Let_def u flip: e_def)
  also have "\<dots> = x" by (simp add: x_def)
  finally show ?thesis by (simp add: x_def)
qed

lemma fl_of_int: "\<bar>m\<bar> < 2 ^ 53 \<Longrightarrow> fl (of_int m) = of_int m"
  using fl_dyadic [of m 0] by simp

lemma fl_numeral: "numeral n < (2::int) ^ 53 \<Longrightarrow> fl (numeral n) = numeral n"
  using fl_of_int [of "numeral n"] by simp

text \<open>The numbers of the concrete inputs below are doubles.\<close>

lemma fl_vals:
  "fl 1 = 1" "fl (1 / 4) = 1 / 4" "fl (3 / 4) = 3 / 4" "fl (5 / 4) = 5 / 4"
  "fl (1 / 2) = 1 / 2" "fl (3 / 2) = 3 / 2" "fl (- (1 / 4)) = - (1 / 4)"
  "fl 75 = 75" "fl 125 = 125" "fl (9 / 8) = 9 / 8" "fl (375 / 4) = 375 / 4"
  "fl (1 / 16) = 1 / 16"
  using fl_of_int [of 1] fl_dyadic [of 1 2] fl_dyadic [of 3 2] fl_dyadic [of 5 2]
    fl_dyadic [of 1 1] fl_dyadic [of 3 1] fl_dyadic [of "-1" 2]
    fl_of_int [of 75] fl_of_int [of 125] fl_dyadic [of 9 3] fl_dyadic [of 375 2]
    fl_dyadic [of 1 4]
  by simp_all




subsection \<open>The multipliers\<close>

lemma truthy_pct: "truthy p \<Longrightarrow> the p = pct p"
  by (cases p) simp_all

lemma buffStep_eq:
  "buffStep h this tw (a, b) =
     ((if qualifies h this tw \<and> truthy (buff_firerate_pct (baseStats (h tw)))
       then fl (a * firerateFactor (h tw)) else a),
      (if qualifies h this tw \<and> truthy (buff_range_pct (baseStats (h tw)))
       then fl (b * rangeFactor (h tw)) else b))"
  by (auto simp: buffStep_def qualifies_def Let_def truthy_pct firerateFactor_def
        rangeFactor_def)

lemma fold_buffStep:
  "fold (buffStep h this) allTowers (a, b) =
     (fold (\<lambda>tw m. fl (m * firerateFactor (h tw)))
        (filter (\<lambda>tw. qualifies h this tw \<and> truthy (buff_firerate_pct (baseStats (h tw))))
           allTowers) a,
      fold (\<lambda>tw m. fl (m * rangeFactor (h tw)))
        (filter (\<lambda>tw. qualifies h this tw \<and> truthy (buff_range_pct (baseStats (h tw))))
           allTowers) b)"
  by (induction allTowers arbitrary: a b) (simp_all add: buffStep_eq)

lemma scaleStat_eq: "scaleStat f m = map_option (\<lambda>v. fl (v * m)) f"
  by (cases f) simp_all

lemma calculateBuffedStats_eq:
  "calculateBuffedStats h this allTowers =
     (if ttype (h this) = Support \<or> ttype (h this) = SupportSensor then baseStats (h this)
      else (baseStats (h this))
             \<lparr>firerate_s := scaleStat (firerate_s (baseStats (h this))) (firerateBuff h this allTowers),
              srange := scaleStat (srange (baseStats (h this))) (rangeBuff h this allTowers)\<rparr>)"
  by (simp add: calculateBuffedStats_def Let_def fold_buffStep firerateBuff_def rangeBuff_def)

text \<open>What the buffs of a tower depend on in the store.\<close>

lemma qualifies_cong:
  assumes "t_x (h this) = t_x (h' this)" "t_y (h this) = t_y (h' this)"
      and "tw \<noteq> this \<Longrightarrow> sameSource (h tw) (h' tw)"
  shows "qualifies h this tw = qualifies h' this tw"
  using assms by (cases "tw = this") (simp_all add: qualifies_def sameSource_def)

lemma buffs_fold_cong:
  assumes "t_x (h this) = t_x (h' this)" "t_y (h this) = t_y (h' this)"
      and "\<forall>r \<in> set ts. r \<noteq> this \<longrightarrow> sameSource (h r) (h' r)"
  shows "fold (\<lambda>tw m. fl (m * firerateFactor (h tw)))
           (filter (\<lambda>tw. qualifies h this tw \<and> truthy (buff_firerate_pct (baseStats (h tw)))) ts) a
         = fold (\<lambda>tw m. fl (m * firerateFactor (h' tw)))
           (filter (\<lambda>tw. qualifies h' this tw \<and> truthy (buff_firerate_pct (baseStats (h' tw)))) ts) a
       \<and> fold (\<lambda>tw m. fl (m * rangeFactor (h tw)))
           (filter (\<lambda>tw. qualifies h this tw \<and> truthy (buff_range_pct (baseStats (h tw)))) ts) b
         = fold (\<lambda>tw m. fl (m * rangeFactor (h' tw)))
           (filter (\<lambda>tw. qualifies h' this tw \<and> truthy (buff_range_pct (baseStats (h' tw)))) ts) b"
  using assms(3)
proof (induction ts arbitrary: a b)
  case Nil
  show ?case by simp
next
  case (Cons tw tws)
  then have s: "tw \<noteq> this \<Longrightarrow> sameSource (h tw) (h' tw)"
    and r: "\<forall>r \<in> set tws. r \<noteq> this \<longrightarrow> sameSource (h r) (h' r)"
    by simp_all
  note ih = Cons.IH [OF r]
  have q: "qualifies h this tw = qualifies h' this tw"
    using assms(1,2) s by (rule qualifies_cong)
  have b: "qualifies h' this tw \<Longrightarrow> baseStats (h tw) = baseStats (h' tw)"
    using s by (simp add: sameSource_def qualifies_def)
  have f: "qualifies h' this tw \<Longrightarrow>
           firerateFactor (h tw) = firerateFactor (h' tw)
           \<and> rangeFactor (h tw) = rangeFactor (h' tw)"
    using b by (simp add: firerateFactor_def rangeFactor_def)
  show ?case
    using ih by (cases "qualifies h' this tw") (simp_all add: q b f)
qed

lemma buffs_cong:
  assumes "t_x (h this) = t_x (h' this)" "t_y (h this) = t_y (h' this)"
      and "\<forall>r \<in> set ts. r \<noteq> this \<longrightarrow> sameSource (h r) (h' r)"
  shows "firerateBuff h this ts = firerateBuff h' this ts
         \<and> rangeBuff h this ts = rangeBuff h' this ts"
  unfolding firerateBuff_def rangeBuff_def by (rule buffs_fold_cong [OF assms])

lemma buffedOf_cong:
  assumes "t_x (h this) = t_x (h' this)" "t_y (h this) = t_y (h' this)"
      and "ttype (h this) = ttype (h' this)" "levelData (h this) = levelData (h' this)"
      and "\<forall>r \<in> set ts. r \<noteq> this \<longrightarrow> sameSource (h r) (h' r)"
  shows "buffedOf h this ts = buffedOf h' this ts"
  using buffs_cong [OF assms(1,2,5)] assms(3,4) by (simp add: buffedOf_def)

lemma effectiveStats_cong:
  assumes "t_x (h this) = t_x (h' this)" "t_y (h this) = t_y (h' this)"
      and "ttype (h this) = ttype (h' this)" "levelData (h this) = levelData (h' this)"
      and "infection (h this) = infection (h' this)"
      and "\<forall>r \<in> set ts. r \<noteq> this \<longrightarrow> sameSource (h r) (h' r)"
  shows "effectiveStats im h this ts = effectiveStats im h' this ts"
  using buffedOf_cong [OF assms(1,2,3,4,6)] assms(5) by (simp add: effectiveStats_def)

lemma levelData_fields [simp]:
  "levelData (t\<lparr>baseStats := b\<rparr>) = levelData t"
  "levelData (t\<lparr>buffedStats := b\<rparr>) = levelData t"
  "levelData (t\<lparr>stats := b\<rparr>) = levelData t"
  "levelData (t\<lparr>infection := i\<rparr>) = levelData t"
  by (simp_all add: levelData_def)

lemma applyInfectionDebuff_eq:
  "applyInfectionDebuff im t st = (if infection t = None then st else infectionDebuff im st)"
  by (simp add: applyInfectionDebuff_def infectionDebuff_def scaleStat_eq)

lemma calculateBuffedStats_base:
  "calculateBuffedStats (h(this := (h this)\<lparr>baseStats := levelData (h this)\<rparr>)) this ts
     = buffedOf h this ts"
proof -
  let ?h1 = "h(this := (h this)\<lparr>baseStats := levelData (h this)\<rparr>)"
  have "firerateBuff ?h1 this ts = firerateBuff h this ts
         \<and> rangeBuff ?h1 this ts = rangeBuff h this ts"
    by (rule buffs_cong) (simp_all add: sameSource_def)
  then show ?thesis
    by (simp add: calculateBuffedStats_eq buffedOf_def scaleStat_eq)
qed

lemma applyStats_eq:
  "applyStats im h this ts =
     h(this := (h this)\<lparr>baseStats := levelData (h this),
                        buffedStats := buffedOf h this ts,
                        stats := effectiveStats im h this ts\<rparr>)"
  unfolding applyStats_def Let_def calculateBuffedStats_base
  by (simp add: applyInfectionDebuff_eq effectiveStats_def)

lemma applyStats_other: "r \<noteq> this \<Longrightarrow> applyStats im h this ts r = h r"
  by (simp add: applyStats_eq)



lemma sameSource_refl [simp]: "sameSource a a"
  by (simp add: sameSource_def)

lemma fold_applyStats_current:
  assumes inv: "baseStatsCurrent h ts"
  shows "set us \<subseteq> set ts \<Longrightarrow>
         fold (\<lambda>tw h'. applyStats im h' tw ts) us h =
           (\<lambda>r. if r \<in> set us
                then (h r)\<lparr>buffedStats := buffedOf h r ts,
                           stats := effectiveStats im h r ts\<rparr>
                else h r)"
proof (induction us rule: rev_induct)
  case Nil
  show ?case by simp
next
  case (snoc u us)
  let ?G = "\<lambda>r. if r \<in> set us
                then (h r)\<lparr>buffedStats := buffedOf h r ts,
                           stats := effectiveStats im h r ts\<rparr>
                else h r"
  from snoc have ih: "fold (\<lambda>tw h'. applyStats im h' tw ts) us h = ?G"
    and u: "u \<in> set ts" by simp_all
  from inv u have cur: "baseStats (h u) = levelData (h u)"
    by (simp add: baseStatsCurrent_def)
  have l: "levelData (?G u) = levelData (h u)" by simp
  have b: "buffedOf ?G u ts = buffedOf h u ts"
    by (rule buffedOf_cong) (simp_all add: sameSource_def)
  have e: "effectiveStats im ?G u ts = effectiveStats im h u ts"
    by (rule effectiveStats_cong) (simp_all add: sameSource_def)
  have "fold (\<lambda>tw h'. applyStats im h' tw ts) (us @ [u]) h = applyStats im ?G u ts"
    by (simp add: ih)
  also have "\<dots> = ?G(u := (?G u)\<lparr>baseStats := levelData (h u),
                        buffedStats := buffedOf h u ts,
                        stats := effectiveStats im h u ts\<rparr>)"
    by (simp only: applyStats_eq [of im ?G] l b e)
  also have "\<dots> = (\<lambda>r. if r \<in> set (us @ [u])
                then (h r)\<lparr>buffedStats := buffedOf h r ts,
                           stats := effectiveStats im h r ts\<rparr>
                else h r)"
    using cur by (auto simp: fun_eq_iff)
  finally show ?case .
qed

lemma applyStatsAll_current:
  assumes "baseStatsCurrent h ts"
  shows "applyStatsAll im h ts =
           (\<lambda>r. if r \<in> set ts
                then (h r)\<lparr>buffedStats := buffedOf h r ts,
                           stats := effectiveStats im h r ts\<rparr>
                else h r)"
  unfolding applyStatsAll_def using fold_applyStats_current [OF assms, of ts im] by simp


lemma applyStats_agree:
  assumes "\<forall>r \<in> set ts. h r = h' r" "u \<in> set ts"
  shows "\<forall>r \<in> set ts. applyStats im h u ts r = applyStats im h' u ts r"
proof -
  from assms have hu: "h u = h' u" by simp
  have b: "buffedOf h u ts = buffedOf h' u ts"
    by (rule buffedOf_cong) (simp_all add: hu assms(1))
  have e: "effectiveStats im h u ts = effectiveStats im h' u ts"
    by (rule effectiveStats_cong) (simp_all add: hu assms(1))
  show ?thesis
    using assms(1) by (simp add: applyStats_eq b e hu)
qed

lemma fold_applyStats_agree:
  "\<forall>r \<in> set ts. h r = h' r \<Longrightarrow> set us \<subseteq> set ts \<Longrightarrow>
   \<forall>r \<in> set ts. fold (\<lambda>tw g. applyStats im g tw ts) us h r
                 = fold (\<lambda>tw g. applyStats im g tw ts) us h' r"
proof (induction us arbitrary: h h')
  case Nil
  then show ?case by simp
next
  case (Cons u us)
  then have "\<forall>r \<in> set ts. applyStats im h u ts r = applyStats im h' u ts r"
    by (intro applyStats_agree) simp_all
  with Cons show ?case by simp
qed

lemma applyStatsAll_agree:
  "\<forall>r \<in> set ts. h r = h' r \<Longrightarrow>
   \<forall>r \<in> set ts. applyStatsAll im h ts r = applyStatsAll im h' ts r"
  unfolding applyStatsAll_def by (rule fold_applyStats_agree) simp_all

lemma fold_applyStats_outside:
  "r \<notin> set us \<Longrightarrow> fold (\<lambda>tw g. applyStats im g tw ts) us h r = h r"
  by (induction us arbitrary: h) (simp_all add: applyStats_other)

lemma applyStatsAll_outside:
  "r \<notin> set ts \<Longrightarrow> applyStatsAll im h ts r = h r"
  unfolding applyStatsAll_def by (rule fold_applyStats_outside)


subsection \<open>The concrete store\<close>

lemma hypot_le_iff: "0 \<le> r \<Longrightarrow> hypot dx dy \<le> r \<longleftrightarrow> dx\<^sup>2 + dy\<^sup>2 \<le> r\<^sup>2"
proof -
  assume r: "0 \<le> r"
  have "hypot dx dy \<le> r \<longleftrightarrow> sqrt (dx\<^sup>2 + dy\<^sup>2) \<le> sqrt (r\<^sup>2)"
    using r by (simp add: hypot_def)
  also have "\<dots> \<longleftrightarrow> dx\<^sup>2 + dy\<^sup>2 \<le> r\<^sup>2"
    by (rule real_sqrt_le_iff)
  finally show ?thesis .
qed

lemma hypot_less_iff: "0 \<le> r \<Longrightarrow> hypot dx dy < r \<longleftrightarrow> dx\<^sup>2 + dy\<^sup>2 < r\<^sup>2"
proof -
  assume r: "0 \<le> r"
  have "hypot dx dy < r \<longleftrightarrow> sqrt (dx\<^sup>2 + dy\<^sup>2) < sqrt (r\<^sup>2)"
    using r by (simp add: hypot_def)
  also have "\<dots> \<longleftrightarrow> dx\<^sup>2 + dy\<^sup>2 < r\<^sup>2"
    by (rule real_sqrt_less_iff)
  finally show ?thesis .
qed

lemma isInRange_Some:
  "0 \<le> r \<Longrightarrow> isInRange x y ox oy (Some r) \<longleftrightarrow> (x - ox)\<^sup>2 + (y - oy)\<^sup>2 \<le> r\<^sup>2"
  by (simp add: isInRange_def distanceTo_def hypot_le_iff)

lemma placedStore_at:
  "placedStore 0 = greenhouse0" "placedStore 1 = drone1" "placedStore (Suc 0) = drone1"
  by (simp_all add: placedStore_def)

lemmas example_defs = greenhouse0_def drone1_def greenhouseDef_def droneDef_def
  droneBuffed_def emptyStats_def im0_def

lemma placed_qual:
  "qualifies placedStore 1 0" "\<not> qualifies placedStore 1 1"
  "\<not> qualifies placedStore 0 0" "\<not> qualifies placedStore 0 1"
  by (simp_all add: qualifies_def placedStore_at example_defs isInRange_Some)

lemma greenhouse_factors:
  "firerateFactor greenhouse0 = 3 / 4" "rangeFactor greenhouse0 = 5 / 4"
  by (simp_all add: firerateFactor_def rangeFactor_def example_defs fl_vals)

lemma placed_buffs:
  "firerateBuff placedStore 1 [0, 1] = 3 / 4" "rangeBuff placedStore 1 [0, 1] = 5 / 4"
  "firerateBuff placedStore 1 [1, 0] = 3 / 4" "rangeBuff placedStore 1 [1, 0] = 5 / 4"
  "firerateBuff placedStore 1 [] = 1" "rangeBuff placedStore 1 [] = 1"
  using placed_qual
  by (simp_all add: firerateBuff_def rangeBuff_def placedStore_at greenhouse_factors fl_vals)
     (simp_all add: example_defs)

lemma placed_current: "baseStatsCurrent placedStore [0, 1]"
  by (simp add: baseStatsCurrent_def placedStore_at levelData_def example_defs)

lemma placed_buffedOf:
  "buffedOf placedStore 1 [0, 1] = droneBuffed"
  "buffedOf placedStore 0 [0, 1] = base greenhouseDef"
  "buffedOf placedStore 1 [] = base droneDef"
  by (simp_all add: buffedOf_def placed_buffs placedStore_at levelData_def example_defs
        fl_vals fl_numeral del: One_nat_def)

lemma placed_effective:
  "effectiveStats im0 placedStore 1 [0, 1] = droneBuffed"
  "effectiveStats im0 placedStore 0 [0, 1] = base greenhouseDef"
  using placed_buffedOf
  by (simp_all add: effectiveStats_def placedStore_at example_defs)

lemma built_at:
  "newTower im0 (newTower im0 (\<lambda>_. noTower) 0 100 100 greenhouseDef) 1 150 100 droneDef
     = (\<lambda>_. noTower)(0 := greenhouse0,
                       1 := drone1\<lparr>stats := base droneDef, buffedStats := base droneDef\<rparr>)"
  by (simp add: newTower_def applyStats_eq effectiveStats_def buffedOf_def levelData_def
        firerateBuff_def rangeBuff_def example_defs fun_eq_iff fl_vals fl_numeral)

lemma placement:
  "applyStatsAll im0
     (newTower im0 (newTower im0 (\<lambda>_. noTower) 0 100 100 greenhouseDef) 1 150 100 droneDef)
     [0, 1] = placedStore"
proof -
  let ?s = "(\<lambda>_. noTower)(0::nat := greenhouse0,
                       1 := drone1\<lparr>stats := base droneDef, buffedStats := base droneDef\<rparr>)"
  have at: "?s 0 = greenhouse0"
    "?s 1 = drone1\<lparr>stats := base droneDef, buffedStats := base droneDef\<rparr>"
    by simp_all
  have cur: "baseStatsCurrent ?s [0, 1]"
    by (simp add: baseStatsCurrent_def levelData_def example_defs)
  have q: "qualifies ?s 1 0" "\<not> qualifies ?s 1 1" "\<not> qualifies ?s 0 0" "\<not> qualifies ?s 0 1"
    by (simp_all add: qualifies_def example_defs isInRange_Some)
  have t: "truthy (buff_firerate_pct (baseStats greenhouse0))"
    "truthy (buff_range_pct (baseStats greenhouse0))"
    by (simp_all add: example_defs)
  have fb: "firerateBuff ?s 1 [0, 1] = 3 / 4" "rangeBuff ?s 1 [0, 1] = 5 / 4"
    by (simp_all add: firerateBuff_def rangeBuff_def q t greenhouse_factors fl_vals
          del: One_nat_def)
  have b: "buffedOf ?s 1 [0, 1] = droneBuffed" "buffedOf ?s 0 [0, 1] = base greenhouseDef"
    unfolding buffedOf_def fb
    by (simp_all add: levelData_def example_defs fl_vals fl_numeral)
  have e: "effectiveStats im0 ?s 1 [0, 1] = droneBuffed"
    "effectiveStats im0 ?s 0 [0, 1] = base greenhouseDef"
    using b by (simp_all add: effectiveStats_def example_defs)
  have "applyStatsAll im0 ?s [0, 1] = placedStore"
    unfolding applyStatsAll_current [OF cur] using b e
    by (auto simp: fun_eq_iff placedStore_def example_defs)
  then show ?thesis by (simp only: built_at)
qed


lemma game1_store:
  "towerObjs game1
     = placedStore(1 := drone1\<lparr>infection := Some \<lparr>cureClicks = 0, cureRequired = 4\<rparr>,
                              buffedStats := base droneDef,
                              stats := emptyStats\<lparr>dmg := Some 10, firerate_s := Some 1.5,
                                                 srange := Some 75\<rparr>\<rparr>)"
proof -
  have "towerObjs game1 = infect im0 placedStore 1"
    unfolding game1_def infectRandomTower_def Let_def
    by (simp add: game0_def placedStore_at isInfected_def greenhouse0_def drone1_def)
  also have "\<dots> = placedStore(1 := drone1\<lparr>infection := Some \<lparr>cureClicks = 0, cureRequired = 4\<rparr>,
                              buffedStats := base droneDef,
                              stats := emptyStats\<lparr>dmg := Some 10, firerate_s := Some 1.5,
                                                 srange := Some 75\<rparr>\<rparr>)"
    by (simp add: infect_def applyStats_eq placedStore_at effectiveStats_def buffedOf_def
          firerateBuff_def rangeBuff_def levelData_def infectionDebuff_def example_defs
          fun_eq_iff fl_vals fl_numeral)
  finally show ?thesis .
qed

lemma game1_towers: "towers game1 = [0, 1]"
  by (simp add: game1_def infectRandomTower_def Let_def game0_def)

lemma game1_at:
  "towerObjs game1 0 = greenhouse0"
  "towerObjs game1 1 = drone1\<lparr>infection := Some \<lparr>cureClicks = 0, cureRequired = 4\<rparr>,
                              buffedStats := base droneDef,
                              stats := emptyStats\<lparr>dmg := Some 10, firerate_s := Some 1.5,
                                                 srange := Some 75\<rparr>\<rparr>"
  by (simp_all add: game1_store placedStore_at)

lemma game1_effective:
  "effectiveStats im0 (towerObjs game1) 1 [0, 1]
     = emptyStats\<lparr>dmg := Some 10, firerate_s := Some 1.125, srange := Some 93.75\<rparr>"
proof -
  have q: "qualifies (towerObjs game1) 1 0" "\<not> qualifies (towerObjs game1) 1 1"
    by (simp_all add: qualifies_def game1_at example_defs isInRange_Some del: One_nat_def)
  have f: "firerateFactor (towerObjs game1 0) = 3 / 4" "rangeFactor (towerObjs game1 0) = 5 / 4"
    by (simp_all add: game1_at greenhouse_factors)
  have t: "truthy (buff_firerate_pct (baseStats (towerObjs game1 0)))"
    "truthy (buff_range_pct (baseStats (towerObjs game1 0)))"
    by (simp_all add: game1_at example_defs)
  have b: "firerateBuff (towerObjs game1) 1 [0, 1] = 3 / 4"
    "rangeBuff (towerObjs game1) 1 [0, 1] = 5 / 4"
    by (simp_all add: firerateBuff_def rangeBuff_def q t f fl_vals del: One_nat_def)
  show ?thesis
    by (simp add: effectiveStats_def buffedOf_def b game1_at levelData_def infectionDebuff_def
          example_defs fl_vals fl_numeral del: One_nat_def)
qed

text \<open>
  C1, at a concrete input. The game \<open>game0\<close> is the result of placing a greenhouse
  (support, range 100, firerate buff 25, range buff 25) and a drone 50 away from it: after
  the recompute of the placement the drone's stats are its base stats times the buffs
  (firerate 0.75, range 125). \<open>infectRandomTower\<close> then infects the drone (the effect
  is firerate 50, range -25). The claim asks for base times buffs times debuff, firerate
  1.125 and range 93.75, which is what \<open>effectiveStats\<close> gives on the new store; the
  drone's stats are 1.5 and 75, the debuff on the unbuffed base: \<open>infect\<close> calls
  \<open>applyStats\<close> without the tower array. All the numbers of this input are binary
  fractions, so that no operation on them rounds.
\<close>

theorem C1_infect_drops_buffs:
  "towerObjs game0 =
     applyStatsAll im0
       (newTower im0 (newTower im0 (\<lambda>_. noTower) 0 100 100 greenhouseDef) 1 150 100 droneDef)
       (towers game0)
   \<and> stats (towerObjs game0 1) = effectiveStats im0 (towerObjs game0) 1 (towers game0)
   \<and> firerate_s (stats (towerObjs game0 1)) = Some 0.75
   \<and> srange (stats (towerObjs game0 1)) = Some 125
   \<and> game1 = infectRandomTower im0 0.5 game0
   \<and> towers game1 = [0, 1]
   \<and> infection (towerObjs game1 1) = Some \<lparr>cureClicks = 0, cureRequired = 4\<rparr>
   \<and> firerate_s (stats (towerObjs game1 1)) = Some 1.5
   \<and> srange (stats (towerObjs game1 1)) = Some 75
   \<and> firerate_s (effectiveStats im0 (towerObjs game1) 1 (towers game1)) = Some 1.125
   \<and> srange (effectiveStats im0 (towerObjs game1) 1 (towers game1)) = Some 93.75"
proof -
  have g0: "towerObjs game0 = placedStore" "towers game0 = [0, 1]"
    by (simp_all add: game0_def)
  have a: "towerObjs game0 =
     applyStatsAll im0
       (newTower im0 (newTower im0 (\<lambda>_. noTower) 0 100 100 greenhouseDef) 1 150 100 droneDef)
       (towers game0)"
    by (simp only: g0 placement)
  have b: "stats (towerObjs game0 1) = effectiveStats im0 (towerObjs game0) 1 (towers game0)"
    by (simp only: g0 placed_effective placedStore_at) (simp add: drone1_def)
  have c: "firerate_s (stats (towerObjs game0 1)) = Some 0.75"
    "srange (stats (towerObjs game0 1)) = Some 125"
    by (simp_all add: g0 placedStore_at example_defs)
  have d: "infection (towerObjs game1 1) = Some \<lparr>cureClicks = 0, cureRequired = 4\<rparr>"
    "firerate_s (stats (towerObjs game1 1)) = Some 1.5"
    "srange (stats (towerObjs game1 1)) = Some 75"
    by (simp_all add: game1_at emptyStats_def del: One_nat_def)
  have e: "firerate_s (effectiveStats im0 (towerObjs game1) 1 (towers game1)) = Some 1.125"
    "srange (effectiveStats im0 (towerObjs game1) 1 (towers game1)) = Some 93.75"
    by (simp_all only: game1_towers game1_effective) (simp_all add: emptyStats_def)
  from a b c game1_def game1_towers d e show ?thesis by blast
qed

subsection \<open>The order of the supports\<close>
















section \<open>Selling and curing\<close>

lemma sellTower_eq:
  "sellTower im (Some tw) gs =
     gs\<lparr>money := money gs + real_of_int \<lfloor>fl (totalCost (towerObjs gs tw) * fl 0.7)\<rfloor>,
        moneyEarned :=
          moneyEarned gs + real_of_int \<lfloor>fl (totalCost (towerObjs gs tw) * fl 0.7)\<rfloor>,
        towers := remove1 tw (towers gs),
        selectedTower := (if selectedTower gs = Some tw then None else selectedTower gs),
        towerObjs := applyStatsAll im (towerObjs gs) (remove1 tw (towers gs))\<rparr>"
  by (simp add: sellTower_def earnMoney_def Let_def)

text \<open>The literal \<open>0.7\<close> is the double 3152519739159347 / 2^52, a little below 7/10.
  Its product with 130 rounds to 91; its product with 90 rounds to the double just
  below 63.\<close>

lemma fl_07: "fl 0.7 = 3152519739159347 / 2 ^ 52"
  by (subst fl_binade [of "-1"]) (simp_all add: roundEven_def power_int_minus)

lemma refund_130: "\<lfloor>fl (130 * fl 0.7)\<rfloor> = 91"
proof -
  have a: "fl (130 * (3152519739159347 / 2 ^ 52)) = 91"
    by (subst fl_binade [of 6]) (simp_all add: roundEven_def power_int_minus)
  have b: "\<lfloor>91::real\<rfloor> = 91" by simp
  show ?thesis by (simp only: fl_07 a b)
qed

lemma refund_90: "\<lfloor>fl (90 * fl 0.7)\<rfloor> = 62"
proof -
  have a: "fl (90 * (3152519739159347 / 2 ^ 52)) = 8866461766385663 / 2 ^ 47"
    by (subst fl_binade [of 5]) (simp_all add: roundEven_def power_int_minus)
  have b: "\<lfloor>8866461766385663 / 2 ^ 47 :: real\<rfloor> = 62" by simp
  show ?thesis by (simp only: fl_07 a b)
qed

text \<open>
  C7. The claim has the sale of a tower increase money by exactly the floor of totalCost
  times 0.7. \<open>sellTower\<close> computes \<open>Math.floor(tower.totalCost * 0.7)\<close> in doubles: the
  refund is the floor of the rounded product of totalCost and the double \<open>0.7\<close>. For a
  total cost of 130 the refund is 91, as the claim says; for a total cost of 90 it is
  62, while the floor of 90 times 0.7 is 63. The rest of the claim holds: the sale
  removes the tower from the tower array, so that it is no longer among the towers that
  are updated or scanned as buff sources, and recomputes the stats of the remaining
  towers from the remaining towers alone: the result does not depend on the object of
  the sold tower and, in a store whose base stats are those of the levels, gives every
  remaining tower its base stats times the buffs of the remaining qualifying supports
  (times the debuff if it is infected).
\<close>

theorem C7_sellTower_refund:
  assumes "tw \<in> set (towers gs)" and "distinct (towers gs)"
  shows "money (sellTower im (Some tw) gs)
           = money gs + real_of_int \<lfloor>fl (totalCost (towerObjs gs tw) * fl 0.7)\<rfloor>
       \<and> (totalCost (towerObjs gs tw) = 130 \<longrightarrow>
            money (sellTower im (Some tw) gs) = money gs + 91)
       \<and> (totalCost (towerObjs gs tw) = 90 \<longrightarrow>
            money (sellTower im (Some tw) gs) = money gs + 62
            \<and> money (sellTower im (Some tw) gs)
                \<noteq> money gs + real_of_int \<lfloor>totalCost (towerObjs gs tw) * 0.7\<rfloor>
            \<and> real_of_int \<lfloor>totalCost (towerObjs gs tw) * 0.7\<rfloor> = 63)
       \<and> towers (sellTower im (Some tw) gs) = remove1 tw (towers gs)
       \<and> tw \<notin> set (towers (sellTower im (Some tw) gs))
       \<and> set (towers (sellTower im (Some tw) gs)) = set (towers gs) - {tw}
       \<and> towerObjs (sellTower im (Some tw) gs)
           = applyStatsAll im (towerObjs gs) (towers (sellTower im (Some tw) gs))
       \<and> (\<forall>r t'. r \<noteq> tw \<longrightarrow>
             towerObjs (sellTower im (Some tw) (gs\<lparr>towerObjs := (towerObjs gs)(tw := t')\<rparr>)) r
               = towerObjs (sellTower im (Some tw) gs) r)
       \<and> (baseStatsCurrent (towerObjs gs) (towers gs) \<longrightarrow>
            (\<forall>r \<in> set (towers (sellTower im (Some tw) gs)).
               stats (towerObjs (sellTower im (Some tw) gs) r)
                 = effectiveStats im (towerObjs (sellTower im (Some tw) gs)) r
                     (towers (sellTower im (Some tw) gs))))"
proof -
  let ?ts = "remove1 tw (towers gs)"
  have notin: "tw \<notin> set ?ts" and sub: "set ?ts = set (towers gs) - {tw}"
    using assms by simp_all
  have m: "money (sellTower im (Some tw) gs)
           = money gs + real_of_int \<lfloor>fl (totalCost (towerObjs gs tw) * fl 0.7)\<rfloor>"
    by (simp add: sellTower_eq)
  have m130: "totalCost (towerObjs gs tw) = 130 \<longrightarrow>
            money (sellTower im (Some tw) gs) = money gs + 91"
  proof
    assume c: "totalCost (towerObjs gs tw) = 130"
    show "money (sellTower im (Some tw) gs) = money gs + 91"
      unfolding m c refund_130 by simp
  qed
  have m90: "totalCost (towerObjs gs tw) = 90 \<longrightarrow>
            money (sellTower im (Some tw) gs) = money gs + 62
            \<and> money (sellTower im (Some tw) gs)
                \<noteq> money gs + real_of_int \<lfloor>totalCost (towerObjs gs tw) * 0.7\<rfloor>
            \<and> real_of_int \<lfloor>totalCost (towerObjs gs tw) * 0.7\<rfloor> = 63"
  proof
    assume c: "totalCost (towerObjs gs tw) = 90"
    show "money (sellTower im (Some tw) gs) = money gs + 62
            \<and> money (sellTower im (Some tw) gs)
                \<noteq> money gs + real_of_int \<lfloor>totalCost (towerObjs gs tw) * 0.7\<rfloor>
            \<and> real_of_int \<lfloor>totalCost (towerObjs gs tw) * 0.7\<rfloor> = 63"
      unfolding m c refund_90 by simp
  qed
  have t: "towers (sellTower im (Some tw) gs) = ?ts"
    by (simp add: sellTower_eq)
  have o: "towerObjs (sellTower im (Some tw) gs)
           = applyStatsAll im (towerObjs gs) (towers (sellTower im (Some tw) gs))"
    by (simp add: sellTower_eq)
  have indep: "\<forall>r t'. r \<noteq> tw \<longrightarrow>
             towerObjs (sellTower im (Some tw) (gs\<lparr>towerObjs := (towerObjs gs)(tw := t')\<rparr>)) r
               = towerObjs (sellTower im (Some tw) gs) r"
  proof (intro allI impI)
    fix r t' assume r: "r \<noteq> tw"
    have agree: "\<forall>a \<in> set ?ts. ((towerObjs gs)(tw := t')) a = towerObjs gs a"
      using notin by auto
    have "applyStatsAll im ((towerObjs gs)(tw := t')) ?ts r = applyStatsAll im (towerObjs gs) ?ts r"
    proof (cases "r \<in> set ?ts")
      case True
      with applyStatsAll_agree [OF agree] show ?thesis by blast
    next
      case False
      then show ?thesis using r by (simp add: applyStatsAll_outside)
    qed
    then show "towerObjs (sellTower im (Some tw) (gs\<lparr>towerObjs := (towerObjs gs)(tw := t')\<rparr>)) r
               = towerObjs (sellTower im (Some tw) gs) r"
      by (simp add: sellTower_eq)
  qed
  have eff: "baseStatsCurrent (towerObjs gs) (towers gs) \<longrightarrow>
            (\<forall>r \<in> set (towers (sellTower im (Some tw) gs)).
               stats (towerObjs (sellTower im (Some tw) gs) r)
                 = effectiveStats im (towerObjs (sellTower im (Some tw) gs)) r
                     (towers (sellTower im (Some tw) gs)))"
  proof (intro impI ballI)
    fix r
    assume cur: "baseStatsCurrent (towerObjs gs) (towers gs)"
      and r: "r \<in> set (towers (sellTower im (Some tw) gs))"
    from cur sub have cur': "baseStatsCurrent (towerObjs gs) ?ts"
      by (simp add: baseStatsCurrent_def)
    let ?G = "applyStatsAll im (towerObjs gs) ?ts"
    note G = applyStatsAll_current [OF cur', of im]
    have e: "effectiveStats im ?G r ?ts = effectiveStats im (towerObjs gs) r ?ts"
      by (rule effectiveStats_cong) (simp_all add: G sameSource_def)
    from r have "r \<in> set ?ts" by (simp add: t)
    then have "stats (?G r) = effectiveStats im (towerObjs gs) r ?ts"
      by (simp add: G)
    with e show "stats (towerObjs (sellTower im (Some tw) gs) r)
                 = effectiveStats im (towerObjs (sellTower im (Some tw) gs)) r
                     (towers (sellTower im (Some tw) gs))"
      by (simp add: sellTower_eq)
  qed
  from m m130 m90 t notin sub o indep eff show ?thesis by (simp only: t) blast
qed


theorem C7_sellTower_refund_witness:
  "1 \<in> set (towers game0) \<and> 0 \<in> set (towers game0) \<and> distinct (towers game0)
   \<and> baseStatsCurrent (towerObjs game0) (towers game0)
   \<and> money game0 = 500
   \<and> totalCost (towerObjs game0 1) = 130
   \<and> money (sellTower im0 (Some 1) game0) = 591
   \<and> towers (sellTower im0 (Some 1) game0) = [0]
   \<and> totalCost (towerObjs game0 0) = 90
   \<and> money (sellTower im0 (Some 0) game0) = 562
   \<and> \<lfloor>90 * 0.7 :: real\<rfloor> = 63
   \<and> towers (sellTower im0 (Some 0) game0) = [1]"
proof -
  have h: "1 \<in> set (towers game0)" "distinct (towers game0)"
    and h0: "0 \<in> set (towers game0)"
    and c: "totalCost (towerObjs game0 1) = 130" and m: "money game0 = 500"
    and c0: "totalCost (towerObjs game0 0) = 90"
    and t: "remove1 1 (towers game0) = [0]" "remove1 0 (towers game0) = [1]"
    by (simp_all add: game0_def placedStore_at drone1_def greenhouse0_def)
  have b: "baseStatsCurrent (towerObjs game0) (towers game0)"
    using placed_current by (simp add: game0_def)
  from C7_sellTower_refund [OF h, of im0] C7_sellTower_refund [OF h0 h(2), of im0] c c0 m t b
  show ?thesis
    using h h0 by simp
qed

lemma click_step:
  assumes "infection (towerObjs gs tw) = Some \<lparr>cureClicks = c, cureRequired = N\<rparr>"
      and "int c + 1 < N"
  shows "handleClickCure im tw gs =
           gs\<lparr>towerObjs := (towerObjs gs)
                 (tw := (towerObjs gs tw)
                    \<lparr>infection := Some \<lparr>cureClicks = c + 1, cureRequired = N\<rparr>\<rparr>)\<rparr>"
  using assms by (simp add: handleClickCure_def Let_def)

lemma clicks_before:
  assumes "infection (towerObjs gs tw) = Some \<lparr>cureClicks = c, cureRequired = N\<rparr>"
  shows "int c + int k < N \<Longrightarrow>
         (handleClickCure im tw ^^ k) gs =
           gs\<lparr>towerObjs := (towerObjs gs)
                 (tw := (towerObjs gs tw)
                    \<lparr>infection := Some \<lparr>cureClicks = c + k, cureRequired = N\<rparr>\<rparr>)\<rparr>"
proof (induction k)
  case 0
  have "(towerObjs gs tw)\<lparr>infection := Some \<lparr>cureClicks = c, cureRequired = N\<rparr>\<rparr>
          = towerObjs gs tw"
    by (simp flip: assms)
  then show ?case by simp
next
  case (Suc k)
  from Suc.prems have lt: "int c + int (Suc k) < N" and lt': "int c + int k < N"
    by simp_all
  note ih = Suc.IH [OF lt']
  let ?gk = "gs\<lparr>towerObjs := (towerObjs gs)
                 (tw := (towerObjs gs tw)
                    \<lparr>infection := Some \<lparr>cureClicks = c + k, cureRequired = N\<rparr>\<rparr>)\<rparr>"
  have ik: "infection (towerObjs ?gk tw) = Some \<lparr>cureClicks = c + k, cureRequired = N\<rparr>"
    by simp
  have lk: "int (c + k) + 1 < N" using lt by simp
  have "(handleClickCure im tw ^^ Suc k) gs = handleClickCure im tw ?gk"
    by (simp only: funpow.simps o_apply ih)
  also have "\<dots> = gs\<lparr>towerObjs := (towerObjs gs)
                 (tw := (towerObjs gs tw)
                    \<lparr>infection := Some \<lparr>cureClicks = c + Suc k, cureRequired = N\<rparr>\<rparr>)\<rparr>"
    unfolding click_step [OF ik lk] by simp
  finally show ?case .
qed

lemma click_last:
  assumes "infection (towerObjs gs tw) = Some \<lparr>cureClicks = c, cureRequired = N\<rparr>"
      and "int c + 1 \<ge> N"
  shows "handleClickCure im tw gs =
           gs\<lparr>towerObjs := applyStats im
                   ((towerObjs gs)(tw := (towerObjs gs tw)\<lparr>infection := None\<rparr>)) tw (towers gs),
               infectionsCured := infectionsCured gs + 1\<rparr>"
  using assms by (simp add: handleClickCure_def cure_def Let_def)

lemma infection_applyStats [simp]:
  "infection (applyStats im h this ts r) = infection (h r)"
  by (simp add: applyStats_eq)

text \<open>
  C8. For a tower whose infection record has cureClicks 0 and cureRequired N, with N at
  least 1, the record is still there after every number of cure clicks below N, with
  cureClicks equal to that number; the Nth click clears it and recomputes the tower's
  stats against the tower array (they are then its buffed stats, without debuff); a
  further click changes nothing, as does any click on a tower without infection record.
\<close>

theorem C8_cure_on_Nth_click:
  assumes "infection (towerObjs gs tw) = Some \<lparr>cureClicks = 0, cureRequired = N\<rparr>"
      and "0 < N"
  shows "(\<forall>k. int k < N \<longrightarrow>
            infection (towerObjs ((handleClickCure im tw ^^ k) gs) tw)
              = Some \<lparr>cureClicks = k, cureRequired = N\<rparr>)
       \<and> infection (towerObjs ((handleClickCure im tw ^^ nat N) gs) tw) = None
       \<and> towerObjs ((handleClickCure im tw ^^ nat N) gs)
           = applyStats im ((towerObjs gs)(tw := (towerObjs gs tw)\<lparr>infection := None\<rparr>))
               tw (towers gs)
       \<and> stats (towerObjs ((handleClickCure im tw ^^ nat N) gs) tw)
           = buffedOf (towerObjs gs) tw (towers gs)
       \<and> handleClickCure im tw ((handleClickCure im tw ^^ nat N) gs)
           = (handleClickCure im tw ^^ nat N) gs
       \<and> (\<forall>gs' tw'. infection (towerObjs gs' tw') = None \<longrightarrow>
             handleClickCure im tw' gs' = gs')"
proof -
  have before: "\<forall>k. int k < N \<longrightarrow>
            infection (towerObjs ((handleClickCure im tw ^^ k) gs) tw)
              = Some \<lparr>cureClicks = k, cureRequired = N\<rparr>"
    using clicks_before [OF assms(1), of _ im] by simp
  obtain k where k: "nat N = Suc k" and kN: "int k < N" "int k + 1 \<ge> N"
    using assms(2) by (cases "nat N") auto
  let ?gk = "gs\<lparr>towerObjs := (towerObjs gs)
                 (tw := (towerObjs gs tw)
                    \<lparr>infection := Some \<lparr>cureClicks = k, cureRequired = N\<rparr>\<rparr>)\<rparr>"
  have gk: "(handleClickCure im tw ^^ k) gs = ?gk"
    using clicks_before [OF assms(1), of k im] kN by simp
  have ik: "infection (towerObjs ?gk tw) = Some \<lparr>cureClicks = k, cureRequired = N\<rparr>"
    by simp
  have final: "(handleClickCure im tw ^^ nat N) gs =
           gs\<lparr>towerObjs := applyStats im
                   ((towerObjs gs)(tw := (towerObjs gs tw)\<lparr>infection := None\<rparr>)) tw (towers gs),
               infectionsCured := infectionsCured gs + 1\<rparr>"
    unfolding k funpow.simps o_apply gk click_last [OF ik kN(2)] by simp
  have cured: "infection (towerObjs ((handleClickCure im tw ^^ nat N) gs) tw) = None"
    by (simp add: final)
  have store: "towerObjs ((handleClickCure im tw ^^ nat N) gs)
           = applyStats im ((towerObjs gs)(tw := (towerObjs gs tw)\<lparr>infection := None\<rparr>))
               tw (towers gs)"
    by (simp add: final)
  have b: "buffedOf ((towerObjs gs)(tw := (towerObjs gs tw)\<lparr>infection := None\<rparr>)) tw (towers gs)
           = buffedOf (towerObjs gs) tw (towers gs)"
    by (rule buffedOf_cong) simp_all
  have st: "stats (towerObjs ((handleClickCure im tw ^^ nat N) gs) tw)
           = buffedOf (towerObjs gs) tw (towers gs)"
    by (simp add: store applyStats_eq effectiveStats_def b)
  have noop: "\<forall>gs' tw'. infection (towerObjs gs' tw') = None \<longrightarrow>
             handleClickCure im tw' gs' = gs'"
    by (simp add: handleClickCure_def)
  from noop cured have again: "handleClickCure im tw ((handleClickCure im tw ^^ nat N) gs)
           = (handleClickCure im tw ^^ nat N) gs"
    by blast
  from before cured store st again noop show ?thesis by blast
qed

theorem C8_cure_on_Nth_click_witness:
  "infection (towerObjs game1 1) = Some \<lparr>cureClicks = 0, cureRequired = 4\<rparr>
   \<and> (0::int) < 4
   \<and> infection (towerObjs ((handleClickCure im0 1 ^^ 3) game1) 1)
       = Some \<lparr>cureClicks = 3, cureRequired = 4\<rparr>
   \<and> infection (towerObjs ((handleClickCure im0 1 ^^ 4) game1) 1) = None
   \<and> handleClickCure im0 1 ((handleClickCure im0 1 ^^ 4) game1)
       = (handleClickCure im0 1 ^^ 4) game1"
proof -
  have i: "infection (towerObjs game1 1) = Some \<lparr>cureClicks = 0, cureRequired = 4\<rparr>"
    by (simp add: game1_at del: One_nat_def)
  have p: "(0::int) < 4" by simp
  note c = C8_cure_on_Nth_click [OF i p, of im0]
  from c have "int 3 < 4 \<longrightarrow> infection (towerObjs ((handleClickCure im0 1 ^^ 3) game1) 1)
       = Some \<lparr>cureClicks = 3, cureRequired = 4\<rparr>"
    by blast
  then have a: "infection (towerObjs ((handleClickCure im0 1 ^^ 3) game1) 1)
       = Some \<lparr>cureClicks = 3, cureRequired = 4\<rparr>"
    by simp
  have n: "nat 4 = 4" by simp
  from c have b: "infection (towerObjs ((handleClickCure im0 1 ^^ 4) game1) 1) = None"
    and d: "handleClickCure im0 1 ((handleClickCure im0 1 ^^ 4) game1)
       = (handleClickCure im0 1 ^^ 4) game1"
    unfolding n by blast+
  from i p a b d show ?thesis by blast
qed


section \<open>Target selection\<close>










lemma enemyStore0_at:
  "enemyStore0 0 = grub\<lparr>e_x := 150, e_y := 120, hp := 30\<rparr>"
  "enemyStore0 1 = grub\<lparr>e_x := 150, e_y := 130, hp := 50\<rparr>"
  "enemyStore0 2 = grub\<lparr>e_x := 150, e_y := 300, pathIndex := 1\<rparr>"
  "enemyStore0 3 = grub\<lparr>e_x := 150, e_y := 110, hp := 50\<rparr>"
  by (simp_all add: enemyStore0_def)





section \<open>Area projectiles\<close>

lemma damageEnemy_frame:
  "statusEffects (enemyObjs (damageEnemy tid d r gs) r') = statusEffects (enemyObjs gs r')"
  "speed (enemyObjs (damageEnemy tid d r gs) r') = speed (enemyObjs gs r')"
  by (simp_all add: damageEnemy_def recordDamage_def takeDamage_def split: option.splits)

lemma damageEnemy_hp:
  "hp (enemyObjs (damageEnemy tid d r gs) r')
     = (if r' = r then max 0 (hp (enemyObjs gs r) - d) else hp (enemyObjs gs r'))"
  by (simp add: damageEnemy_def recordDamage_def takeDamage_def split: option.splits)

lemma fold_damageEnemy_frame:
  "statusEffects (enemyObjs (fold (damageEnemy tid d) rs gs) r') = statusEffects (enemyObjs gs r')
   \<and> speed (enemyObjs (fold (damageEnemy tid d) rs gs) r') = speed (enemyObjs gs r')"
  by (induction rs arbitrary: gs) (simp_all add: damageEnemy_frame)

lemma fold_damageEnemy_hp:
  "distinct rs \<Longrightarrow>
   hp (enemyObjs (fold (damageEnemy tid d) rs gs) r')
     = (if r' \<in> set rs then max 0 (hp (enemyObjs gs r') - d) else hp (enemyObjs gs r'))"
  by (induction rs arbitrary: gs) (auto simp: damageEnemy_hp)

lemma explode_frame:
  assumes "explode p gs = Some (p', gs')"
  shows "\<not> p_active p'
         \<and> statusEffects (enemyObjs gs' r) = statusEffects (enemyObjs gs r)
         \<and> speed (enemyObjs gs' r) = speed (enemyObjs gs r)"
  using assms
  by (auto simp: explode_def Let_def fold_damageEnemy_frame split: option.splits)

lemma hit_frame:
  assumes "hit p gs = Some (p', gs')" "p_ability p = None"
  shows "statusEffects (enemyObjs gs' r) = statusEffects (enemyObjs gs r)
         \<and> speed (enemyObjs gs' r) = speed (enemyObjs gs r)"
  using assms
  by (auto simp: hit_def Let_def damageEnemy_frame split: option.splits if_splits)

lemma Projectile_update_frame:
  assumes "Projectile_update dt p gs = Some (p', gs')"
      and "aoeRadius p > 0 \<or> p_ability p = None"
  shows "statusEffects (enemyObjs gs' r) = statusEffects (enemyObjs gs r)
         \<and> speed (enemyObjs gs' r) = speed (enemyObjs gs r)"
proof (cases "aoeRadius p > 0")
  case True
  with assms(1) show ?thesis
    by (auto simp: Projectile_update_def updateAOE_def Let_def
             split: if_splits option.splits dest: explode_frame)
next
  case False
  with assms(2) have ab: "p_ability (p\<lparr>lifetime := lifetime p + dt\<rparr>) = None" by simp
  from False assms(1) show ?thesis
    by (auto simp: Projectile_update_def updateSingleTarget_def Let_def
             split: if_splits option.splits dest: hit_frame [OF _ ab])
qed


lemma explode_hp:
  assumes "damage p = Some d" "distinct (enemies gs)"
  shows "\<exists>p' gs'. explode p gs = Some (p', gs')
           \<and> (\<forall>r. hp (enemyObjs gs' r) =
                 (if r \<in> set (enemies gs) \<and> isAlive (enemyObjs gs r)
                     \<and> distanceTo (p_x p) (p_y p) (e_x (enemyObjs gs r)) (e_y (enemyObjs gs r))
                         \<le> aoeRadius p
                  then max 0 (hp (enemyObjs gs r) - d) else hp (enemyObjs gs r)))"
  using assms
  by (simp add: explode_def Let_def fold_damageEnemy_hp isInRange_def)

text \<open>
  C9. A projectile created by an area tower carries no ability and no enemy reference,
  only the captured position of the target, whatever ability the tower's stats define;
  a projectile of any other tower carries the enemy reference and the ability.
  \<open>explode\<close> deactivates the projectile and leaves the status effects and the speed of
  every enemy as they were; with a defined damage it returns, and the hp of exactly the
  living enemies of the enemy array within the blast radius (boundary included) is
  reduced by the damage, not below 0. No update of a projectile with a positive blast
  radius, or without ability, changes a status effect or a speed.
\<close>

theorem C9_area_projectile_no_status:
  "(ttype t = Aoe \<longrightarrow>
      p_ability (createProjectile t tgt eo) = None
      \<and> target (createProjectile t tgt eo) = None
      \<and> targetPos (createProjectile t tgt eo) = Some \<lparr>px = e_x (eo tgt), py = e_y (eo tgt)\<rparr>)
   \<and> (ttype t \<noteq> Aoe \<longrightarrow>
        p_ability (createProjectile t tgt eo) = ability (stats t)
        \<and> target (createProjectile t tgt eo) = Some tgt
        \<and> aoeRadius (createProjectile t tgt eo) = 0)
   \<and> (\<forall>p' gs'. explode p gs = Some (p', gs') \<longrightarrow>
         \<not> p_active p'
         \<and> (\<forall>r. statusEffects (enemyObjs gs' r) = statusEffects (enemyObjs gs r)
                \<and> speed (enemyObjs gs' r) = speed (enemyObjs gs r)))
   \<and> (\<forall>d. damage p = Some d \<and> distinct (enemies gs) \<longrightarrow>
         (\<exists>p' gs'. explode p gs = Some (p', gs')
            \<and> (\<forall>r. hp (enemyObjs gs' r) =
                  (if r \<in> set (enemies gs) \<and> isAlive (enemyObjs gs r)
                      \<and> distanceTo (p_x p) (p_y p) (e_x (enemyObjs gs r))
                            (e_y (enemyObjs gs r)) \<le> aoeRadius p
                   then max 0 (hp (enemyObjs gs r) - d) else hp (enemyObjs gs r)))))
   \<and> (\<forall>p' gs'. (aoeRadius p > 0 \<or> p_ability p = None)
                 \<and> Projectile_update dt p gs = Some (p', gs') \<longrightarrow>
         (\<forall>r. statusEffects (enemyObjs gs' r) = statusEffects (enemyObjs gs r)
              \<and> speed (enemyObjs gs' r) = speed (enemyObjs gs r)))"
proof -
  have a: "ttype t = Aoe \<longrightarrow>
      p_ability (createProjectile t tgt eo) = None
      \<and> target (createProjectile t tgt eo) = None
      \<and> targetPos (createProjectile t tgt eo) = Some \<lparr>px = e_x (eo tgt), py = e_y (eo tgt)\<rparr>"
    by (simp add: createProjectile_def newProjectile_def Let_def)
  have b: "ttype t \<noteq> Aoe \<longrightarrow>
        p_ability (createProjectile t tgt eo) = ability (stats t)
        \<and> target (createProjectile t tgt eo) = Some tgt
        \<and> aoeRadius (createProjectile t tgt eo) = 0"
    by (simp add: createProjectile_def newProjectile_def Let_def)
  have c: "\<forall>p' gs'. explode p gs = Some (p', gs') \<longrightarrow>
         \<not> p_active p'
         \<and> (\<forall>r. statusEffects (enemyObjs gs' r) = statusEffects (enemyObjs gs r)
                \<and> speed (enemyObjs gs' r) = speed (enemyObjs gs r))"
    using explode_frame by blast
  have d: "\<forall>d. damage p = Some d \<and> distinct (enemies gs) \<longrightarrow>
         (\<exists>p' gs'. explode p gs = Some (p', gs')
            \<and> (\<forall>r. hp (enemyObjs gs' r) =
                  (if r \<in> set (enemies gs) \<and> isAlive (enemyObjs gs r)
                      \<and> distanceTo (p_x p) (p_y p) (e_x (enemyObjs gs r))
                            (e_y (enemyObjs gs r)) \<le> aoeRadius p
                   then max 0 (hp (enemyObjs gs r) - d) else hp (enemyObjs gs r))))"
    using explode_hp by blast
  have e: "\<forall>p' gs'. (aoeRadius p > 0 \<or> p_ability p = None)
                 \<and> Projectile_update dt p gs = Some (p', gs') \<longrightarrow>
         (\<forall>r. statusEffects (enemyObjs gs' r) = statusEffects (enemyObjs gs r)
              \<and> speed (enemyObjs gs' r) = speed (enemyObjs gs r))"
    using Projectile_update_frame by blast
  from a b c d e show ?thesis by blast
qed

lemma shot_fields:
  "damage shot = Some 5" "aoeRadius shot = 60" "p_ability shot = None"
  "p_x shot = 150" "p_y shot = 115" "targetPos shot = Some \<lparr>px = 150, py = 120\<rparr>"
  "lifetime shot = 0" "maxLifetime shot = 5" "p_active shot"
  by (simp_all add: shot_def createProjectile_def newProjectile_def sprinkler2_def
        emptyStats_def enemyStore0_at Let_def)

theorem C9_area_projectile_no_status_witness:
  "ttype sprinkler2 = Aoe
   \<and> ability (stats sprinkler2) = Some \<lparr>slow_pct = Some 40\<rparr>
   \<and> p_ability (createProjectile sprinkler2 0 enemyStore0) = None
   \<and> damage shot = Some 5 \<and> distinct (enemies game2) \<and> aoeRadius shot > 0
   \<and> (\<exists>p' gs'. Projectile_update 0.016 shot game2 = Some (p', gs')
         \<and> hp (enemyObjs gs' 0) = 25
         \<and> statusEffects (enemyObjs gs' 0) = statusEffects (enemyObjs game2 0)
         \<and> speed (enemyObjs gs' 0) = speed (enemyObjs game2 0))"
proof -
  have ty: "ttype sprinkler2 = Aoe"
    and ab: "ability (stats sprinkler2) = Some \<lparr>slow_pct = Some 40\<rparr>"
    by (simp_all add: sprinkler2_def emptyStats_def)
  have dist: "distinct (enemies game2)" by (simp add: game2_def)
  have g2: "enemies game2 = [0, 1, 2, 3]" "enemyObjs game2 = enemyStore0"
    by (simp_all add: game2_def)
  note c = C9_area_projectile_no_status [of sprinkler2 0 enemyStore0 shot game2 "0.016"]
  from c ty have na: "p_ability (createProjectile sprinkler2 0 enemyStore0) = None"
    by blast
  from c shot_fields(1) dist obtain p' gs' where
    ex: "explode shot game2 = Some (p', gs')"
    and hp: "\<forall>r. hp (enemyObjs gs' r) =
                  (if r \<in> set (enemies game2) \<and> isAlive (enemyObjs game2 r)
                      \<and> distanceTo (p_x shot) (p_y shot) (e_x (enemyObjs game2 r))
                            (e_y (enemyObjs game2 r)) \<le> aoeRadius shot
                   then max 0 (hp (enemyObjs game2 r) - 5) else hp (enemyObjs game2 r))"
    by blast
  have ex': "explode (shot\<lparr>lifetime := lifetime shot + 0.016\<rparr>) game2
               = Some (p'\<lparr>lifetime := lifetime shot + 0.016\<rparr>, gs')"
    using ex by (auto simp: explode_def Let_def split: option.splits)
  have up: "Projectile_update 0.016 shot game2
              = Some (p'\<lparr>lifetime := lifetime shot + 0.016\<rparr>, gs')"
    using ex' by (simp add: Projectile_update_def updateAOE_def Let_def shot_fields hypot_less_iff)
  from hp have "hp (enemyObjs gs' 0) =
                  (if 0 \<in> set (enemies game2) \<and> isAlive (enemyObjs game2 0)
                      \<and> distanceTo (p_x shot) (p_y shot) (e_x (enemyObjs game2 0))
                            (e_y (enemyObjs game2 0)) \<le> aoeRadius shot
                   then max 0 (hp (enemyObjs game2 0) - 5) else hp (enemyObjs game2 0))"
    by blast
  then have h25: "hp (enemyObjs gs' 0) = 25"
    by (simp add: g2 shot_fields enemyStore0_at isAlive_def distanceTo_def hypot_le_iff
          grub_def newEnemy_def)
  from c ex have fr: "statusEffects (enemyObjs gs' 0) = statusEffects (enemyObjs game2 0)
         \<and> speed (enemyObjs gs' 0) = speed (enemyObjs game2 0)"
    by blast
  have pos: "aoeRadius shot > 0" by (simp add: shot_fields)
  from ty ab na shot_fields(1) dist pos up h25 fr show ?thesis by blast
qed


section \<open>The spawn queue\<close>

lemma waveStarted_eq:
  "startWave [antData, beetleData] waves0 1 \<lparr>spawnQueue = [], spawnTimer = 5\<rparr>
     = (True, \<lparr>spawnQueue = [\<lparr>enemyData = antData, spawnTime = 0\<rparr>,
                              \<lparr>enemyData = antData, spawnTime = 1\<rparr>,
                              \<lparr>enemyData = beetleData, spawnTime = 0\<rparr>],
               spawnTimer = 0\<rparr>)"
proof -
  have u: "[0..<2::nat] = [0, 1]" by code_simp
  show ?thesis
    by (simp add: startWave_def waves0_def pushGroup_def antData_def beetleData_def Let_def u
          fl_vals)
qed

text \<open>The tick of 0.1 s: the clock is the double \<open>0.1\<close>, 3602879701896397 / 2^55.\<close>

lemma fl_01: "fl 0.1 = 3602879701896397 / 2 ^ 55"
  by (subst fl_binade [of "-4"]) (simp_all add: roundEven_def power_int_minus)

lemma waveStarted_queue:
  "waveStarted = \<lparr>spawnQueue = [\<lparr>enemyData = antData, spawnTime = 0\<rparr>,
                              \<lparr>enemyData = antData, spawnTime = 1\<rparr>,
                              \<lparr>enemyData = beetleData, spawnTime = 0\<rparr>],
               spawnTimer = 0\<rparr>"
  by (simp only: waveStarted_def waveStarted_eq snd_conv)

lemma waveTicked_eq:
  "waveTicked =
     (\<lparr>spawnQueue = [\<lparr>enemyData = antData, spawnTime = 1\<rparr>,
                     \<lparr>enemyData = beetleData, spawnTime = 0\<rparr>],
       spawnTimer = 3602879701896397 / 2 ^ 55\<rparr>,
      spawnEnemy path0 antData game0)"
  by (simp add: waveTicked_def waveStarted_queue WaveManager_update_def Let_def fl_01)

text \<open>
  C2, at a concrete input. For the wave of two groups, \<open>startWave\<close> leaves the queue in
  group order, with offsets 0, 1, 0: it is not sorted. The tick of 0.1 s (the clock is
  then the double \<open>0.1\<close>, 3602879701896397 / 2^55) spawns the first ant and stops at
  the second ant, due at 1 s; the beetle behind it, due at 0 s, stays in the queue
  although its offset has elapsed. The claim asks for a sorted queue and for the beetle
  to be spawned in this tick.
\<close>

theorem C2_later_group_blocked:
  "startWave [antData, beetleData] waves0 1 \<lparr>spawnQueue = [], spawnTimer = 5\<rparr>
     = (True, waveStarted)
   \<and> map spawnTime (spawnQueue waveStarted) = [0, 1, 0]
   \<and> \<not> sorted (map spawnTime (spawnQueue waveStarted))
   \<and> waveTicked = WaveManager_update path0 0.1 waveStarted game0
   \<and> spawnTimer (fst waveTicked) = 3602879701896397 / 2 ^ 55
   \<and> enemies (snd waveTicked) = [0]
   \<and> e_id (enemyObjs (snd waveTicked) 0) = ''ant''
   \<and> spawnQueue (fst waveTicked) = [\<lparr>enemyData = antData, spawnTime = 1\<rparr>,
                                   \<lparr>enemyData = beetleData, spawnTime = 0\<rparr>]
   \<and> spawnTime (spawnQueue (fst waveTicked) ! 1) \<le> spawnTimer (fst waveTicked)"
proof -
  have a: "startWave [antData, beetleData] waves0 1 \<lparr>spawnQueue = [], spawnTimer = 5\<rparr>
     = (True, waveStarted)"
    by (simp only: waveStarted_eq waveStarted_queue)
  have b: "map spawnTime (spawnQueue waveStarted) = [0, 1, 0]"
    "\<not> sorted (map spawnTime (spawnQueue waveStarted))"
    by (simp_all add: waveStarted_queue)
  have c: "spawnTimer (fst waveTicked) = 3602879701896397 / 2 ^ 55"
    "enemies (snd waveTicked) = [0]"
    "e_id (enemyObjs (snd waveTicked) 0) = ''ant''"
    "spawnQueue (fst waveTicked) = [\<lparr>enemyData = antData, spawnTime = 1\<rparr>,
                                   \<lparr>enemyData = beetleData, spawnTime = 0\<rparr>]"
    "spawnTime (spawnQueue (fst waveTicked) ! 1) \<le> spawnTimer (fst waveTicked)"
    by (simp_all add: waveTicked_eq spawnEnemy_def game0_def newEnemy_def antData_def)
  from a b c waveTicked_def show ?thesis by blast
qed


section \<open>The base stats stay current\<close>

text \<open>
  \<open>baseStatsCurrent\<close>, the hypothesis of the statements on the full recompute, is kept
  by every operation on towers modelled here, and a new tower satisfies it.
\<close>

lemma baseStatsCurrent_applyStats:
  "baseStatsCurrent h ts \<Longrightarrow> baseStatsCurrent (applyStats im h this allTowers) ts"
  by (simp add: baseStatsCurrent_def applyStats_eq)

lemma baseStatsCurrent_applyStatsAll:
  "baseStatsCurrent h ts \<Longrightarrow> baseStatsCurrent (applyStatsAll im h allTowers) ts"
proof -
  have "baseStatsCurrent h ts \<Longrightarrow>
        baseStatsCurrent (fold (\<lambda>tw h'. applyStats im h' tw allTowers) us h) ts" for us
    by (induction us arbitrary: h) (simp_all add: baseStatsCurrent_applyStats)
  then show "baseStatsCurrent h ts \<Longrightarrow> baseStatsCurrent (applyStatsAll im h allTowers) ts"
    by (simp add: applyStatsAll_def)
qed

lemma baseStatsCurrent_newTower:
  "baseStatsCurrent h ts \<Longrightarrow> baseStatsCurrent (newTower im h this x y td) (ts @ [this])"
  by (simp add: baseStatsCurrent_def newTower_def applyStats_eq levelData_def)

lemma baseStatsCurrent_infect:
  "baseStatsCurrent h ts \<Longrightarrow> baseStatsCurrent (infect im h this) ts"
  by (simp add: baseStatsCurrent_def infect_def applyStats_eq)

lemma baseStatsCurrent_cure:
  "baseStatsCurrent (towerObjs gs) (towers gs) \<Longrightarrow>
   baseStatsCurrent (towerObjs (cure im this gs)) (towers (cure im this gs))"
  by (simp add: baseStatsCurrent_def cure_def applyStats_eq Let_def)

lemma baseStatsCurrent_sellTower:
  assumes "baseStatsCurrent (towerObjs gs) (towers gs)"
  shows "baseStatsCurrent (towerObjs (sellTower im tower gs)) (towers (sellTower im tower gs))"
proof (cases tower)
  case None
  with assms show ?thesis by (simp add: sellTower_def)
next
  case (Some tw)
  from assms have "baseStatsCurrent (towerObjs gs) (remove1 tw (towers gs))"
    by (auto simp: baseStatsCurrent_def dest: notin_set_remove1)
  then show ?thesis
    by (simp add: Some sellTower_eq baseStatsCurrent_applyStatsAll)
qed

end
